theory Spec2Isabelle
  imports Complex_Main
begin

section \<open>Values of the vecmath library\<close>

text \<open>
  \<open>Brush.cpp\<close> computes with \<open>FloatType\<close> (a C++ \<open>double\<close>) and the vector, box, ray
  and segment types of the vecmath library. Coordinates are modelled as exact reals:
  the properties below concern the control flow of \<open>Brush.cpp\<close>, and no statement
  depends on rounding.
\<close>

type_synonym FloatType = real

type_synonym vec3 = "FloatType \<times> FloatType \<times> FloatType"

fun vadd :: "vec3 \<Rightarrow> vec3 \<Rightarrow> vec3" where
  "vadd (a, b, c) (x, y, z) = (a + x, b + y, c + z)"

fun vsub :: "vec3 \<Rightarrow> vec3 \<Rightarrow> vec3" where
  "vsub (a, b, c) (x, y, z) = (a - x, b - y, c - z)"

fun vneg :: "vec3 \<Rightarrow> vec3" where
  "vneg (a, b, c) = (- a, - b, - c)"

fun vscale :: "FloatType \<Rightarrow> vec3 \<Rightarrow> vec3" where
  "vscale t (a, b, c) = (t * a, t * b, t * c)"

text \<open>
  Modelled from the spec: \<open>vm::is_zero(v, epsilon)\<close> is not part of the sources at hand; a
  vector is zero within a tolerance when every component is, in absolute value, at most
  the tolerance.
\<close>

fun is_zero :: "vec3 \<Rightarrow> FloatType \<Rightarrow> bool" where
  "is_zero (a, b, c) epsilon = (\<bar>a\<bar> \<le> epsilon \<and> \<bar>b\<bar> \<le> epsilon \<and> \<bar>c\<bar> \<le> epsilon)"

text \<open>
  Modelled from the spec: \<open>vm::is_equal(v, w, epsilon)\<close> is not part of the sources at hand;
  two vectors are equal within a tolerance when every pair of components differs by at most
  the tolerance.
\<close>

fun is_equal :: "vec3 \<Rightarrow> vec3 \<Rightarrow> FloatType \<Rightarrow> bool" where
  "is_equal (a, b, c) (x, y, z) epsilon =
     (\<bar>a - x\<bar> \<le> epsilon \<and> \<bar>b - y\<bar> \<le> epsilon \<and> \<bar>c - z\<bar> \<le> epsilon)"

record bbox3 =
  bmin :: vec3
  bmax :: vec3

text \<open>
  Modelled from the spec: \<open>vm::bbox3::contains\<close> is not part of the sources at hand; an
  axis-aligned box contains a point (a box) when no coordinate of the point (of the
  box's corners) leaves the interval of the containing box.
\<close>

fun vle :: "vec3 \<Rightarrow> vec3 \<Rightarrow> bool" where
  "vle (a, b, c) (x, y, z) = (a \<le> x \<and> b \<le> y \<and> c \<le> z)"

definition bbox_contains_point :: "bbox3 \<Rightarrow> vec3 \<Rightarrow> bool" where
  "bbox_contains_point outer p = (vle (bmin outer) p \<and> vle p (bmax outer))"

definition bbox_contains :: "bbox3 \<Rightarrow> bbox3 \<Rightarrow> bool" where
  "bbox_contains outer b = (vle (bmin outer) (bmin b) \<and> vle (bmax b) (bmax outer))"

datatype plane_status = above | below | inside

datatype side = side_front | side_back | side_both

record ray3 =
  origin :: vec3
  direction :: vec3

record segment3 =
  seg_start :: vec3
  seg_end :: vec3

type_synonym polygon3 = "vec3 list"

text \<open>
  Modelled from the spec: \<open>vm::mat4x4\<close> is not part of the sources at hand. The entries of a
  matrix are of type \<open>double\<close>: a number, one of the two infinities, or NaN. The comparison
  \<open>==\<close> of two of them makes NaN different from everything, itself included, and an
  infinity equal to itself.
\<close>

datatype entry = Number FloatType | PlusInfinity | MinusInfinity | NaN

fun entry_equal :: "entry \<Rightarrow> entry \<Rightarrow> bool" where
  "entry_equal (Number a) (Number b) = (a = b)"
| "entry_equal PlusInfinity PlusInfinity = True"
| "entry_equal MinusInfinity MinusInfinity = True"
| "entry_equal _ _ = False"


section \<open>The polyhedron kernel as used by Brush.cpp\<close>

text \<open>
  \<open>BrushGeometry\<close> (an instance of the \<open>Polyhedron\<close> template) is declared outside the
  sources at hand. \<open>Brush.cpp\<close> is therefore modelled over a record of the kernel
  operations it calls; \<open>'g\<close> is the type of a geometry and \<open>'f\<close> the type of a geometry
  face. Every theorem below that does not name a concrete kernel holds for all of them.

  \<^item> \<open>emptyGeometry\<close>: the default constructor \<open>BrushGeometry()\<close>;
  \<^item> \<open>addPoint g p\<close>: \<open>g.addPoint(p)\<close>, returning the updated geometry;
  \<^item> \<open>bounds\<close>, \<open>vertexPositions\<close> (the positions of \<open>vertices()\<close>, in list order),
    \<open>faces\<close>, \<open>hasVertex\<close>, \<open>hasEdge\<close>, \<open>hasFace\<close>, \<open>contains\<close>: the queries of the
    same names, with their default tolerances;
  \<^item> \<open>point\<close>, \<open>edge\<close>, \<open>polygon\<close>, \<open>polyhedron\<close>: the degeneracy class predicates;
  \<^item> \<open>pointStatus f p\<close>: \<open>f->pointStatus(p)\<close>;
  \<^item> \<open>intersectWithRay f r s\<close>: \<open>f->intersectWithRay(r, s)\<close>, where \<open>None\<close> stands for
    the NaN that reports a miss;
  \<^item> \<open>findClosestVertex g p eps\<close>: the position of the vertex returned by
    \<open>g.findClosestVertex(p, eps)\<close>, \<open>None\<close> for \<open>nullptr\<close>;
  \<^item> \<open>normalize\<close>: \<open>vm::normalize\<close>;
  \<^item> \<open>almost_zero\<close>: the constant \<open>vm::C::almost_zero()\<close>.
\<close>

record ('g, 'f) kernel =
  emptyGeometry :: 'g
  addPoint :: "'g \<Rightarrow> vec3 \<Rightarrow> 'g"
  bounds :: "'g \<Rightarrow> bbox3"
  vertexPositions :: "'g \<Rightarrow> vec3 list"
  faces :: "'g \<Rightarrow> 'f list"
  hasVertex :: "'g \<Rightarrow> vec3 \<Rightarrow> bool"
  hasEdge :: "'g \<Rightarrow> vec3 \<Rightarrow> vec3 \<Rightarrow> bool"
  hasFace :: "'g \<Rightarrow> vec3 list \<Rightarrow> bool"
  contains :: "'g \<Rightarrow> vec3 \<Rightarrow> bool"
  point :: "'g \<Rightarrow> bool"
  edge :: "'g \<Rightarrow> bool"
  polygon :: "'g \<Rightarrow> bool"
  polyhedron :: "'g \<Rightarrow> bool"
  pointStatus :: "'f \<Rightarrow> vec3 \<Rightarrow> plane_status"
  intersectWithRay :: "'f \<Rightarrow> ray3 \<Rightarrow> side \<Rightarrow> FloatType option"
  findClosestVertex :: "'g \<Rightarrow> vec3 \<Rightarrow> FloatType \<Rightarrow> vec3 option"
  normalize :: "vec3 \<Rightarrow> vec3"
  almost_zero :: FloatType

text \<open>\<open>vertexCount()\<close> is the size of the vertex list.\<close>

definition vertexCount :: "('g, 'f) kernel \<Rightarrow> 'g \<Rightarrow> nat" where
  "vertexCount K g = length (vertexPositions K g)"

section \<open>Vertex-move feasibility\<close>

record 'g CanMoveVerticesResult =
  success :: bool
  geometry :: 'g

definition rejectVertexMove :: "('g, 'f) kernel \<Rightarrow> 'g CanMoveVerticesResult" where
  "rejectVertexMove K = \<lparr>success = False, geometry = emptyGeometry K\<rparr>"

definition acceptVertexMove :: "'g \<Rightarrow> 'g CanMoveVerticesResult" where
  "acceptVertexMove result = \<lparr>success = True, geometry = result\<rparr>"

text \<open>
  The first loop of \<open>doCanMoveVertices\<close>: every vertex of the brush goes either to
  \<open>remaining\<close> and (unmoved) to \<open>result\<close>, or to \<open>moving\<close> and (moved) to \<open>result\<close>. The
  state is the triple \<open>(remaining, moving, result)\<close>; membership in \<open>vertexSet\<close> (a
  \<open>std::set\<close>) is exact equality of positions.
\<close>

definition addFragmentVertex ::
  "('g, 'f) kernel \<Rightarrow> vec3 list \<Rightarrow> vec3 \<Rightarrow> 'g \<times> 'g \<times> 'g \<Rightarrow> vec3 \<Rightarrow> 'g \<times> 'g \<times> 'g" where
  "addFragmentVertex K vertexSet delta s position =
     (case s of (remaining, moving, result) \<Rightarrow>
        if position \<notin> set vertexSet
        then (addPoint K remaining position, moving, addPoint K result position)
        else (remaining, addPoint K moving position, addPoint K result (vadd position delta)))"

definition fragments ::
  "('g, 'f) kernel \<Rightarrow> 'g \<Rightarrow> vec3 list \<Rightarrow> vec3 \<Rightarrow> 'g \<times> 'g \<times> 'g" where
  "fragments K g vertexSet delta =
     foldl (addFragmentVertex K vertexSet delta)
       (emptyGeometry K, emptyGeometry K, emptyGeometry K) (vertexPositions K g)"

text \<open>
  The sweep at the end of \<open>doCanMoveVertices\<close>: some vertex of \<open>moving\<close> is below the plane
  of a face of \<open>remaining\<close> before the move and above it afterwards, and the ray from the
  old position along the move hits the back of that face.
\<close>

definition travelsThroughFace ::
  "('g, 'f) kernel \<Rightarrow> vec3 \<Rightarrow> vec3 \<Rightarrow> 'f \<Rightarrow> bool" where
  "travelsThroughFace K delta oldPos face =
     (let newPos = vadd oldPos delta in
      pointStatus K face oldPos = below \<and> pointStatus K face newPos = above \<and>
      intersectWithRay K face
        \<lparr>origin = oldPos, direction = normalize K (vsub newPos oldPos)\<rparr> side_back \<noteq> None)"

definition travelsThrough ::
  "('g, 'f) kernel \<Rightarrow> 'g \<Rightarrow> 'g \<Rightarrow> vec3 \<Rightarrow> bool" where
  "travelsThrough K moving remaining delta =
     list_ex (\<lambda>oldPos. list_ex (travelsThroughFace K delta oldPos) (faces K remaining))
       (vertexPositions K moving)"

text \<open>
  The block "Invert if necessary" of \<open>doCanMoveVertices\<close>: the fragments are swapped and
  the delta negated. The state is \<open>(remaining, moving, delta)\<close>.
\<close>

definition invertIfNecessary ::
  "('g, 'f) kernel \<Rightarrow> 'g \<times> 'g \<times> vec3 \<Rightarrow> 'g \<times> 'g \<times> vec3" where
  "invertIfNecessary K s =
     (case s of (remaining, moving, delta) \<Rightarrow>
        if point K remaining \<or> edge K remaining \<or> (polygon K remaining \<and> polyhedron K moving)
        then (moving, remaining, vneg delta)
        else (remaining, moving, delta))"

text \<open>
  \<open>Brush::doCanMoveVertices\<close>. The receiver's geometry \<open>g\<close> is \<open>m_geometry\<close>, which the
  function dereferences without a check.
\<close>

definition doCanMoveVertices ::
  "('g, 'f) kernel \<Rightarrow> bbox3 \<Rightarrow> 'g \<Rightarrow> vec3 list \<Rightarrow> vec3 \<Rightarrow> bool \<Rightarrow> 'g CanMoveVerticesResult" where
  "doCanMoveVertices K worldBounds g vertexPositions0 delta allowVertexRemoval =
     (if vertexPositions0 = [] \<or> is_zero delta (almost_zero K) then rejectVertexMove K
      else case fragments K g vertexPositions0 delta of (remaining, moving, result) \<Rightarrow>
        if \<not> bbox_contains worldBounds (bounds K result) then rejectVertexMove K
        else if vertexCount K moving = vertexCount K g then acceptVertexMove result
        else if \<not> allowVertexRemoval \<and>
                \<not> list_all (\<lambda>movingVertex. hasVertex K result (vadd movingVertex delta))
                    (vertexPositions K moving)
          then rejectVertexMove K
        else if \<not> polyhedron K result then rejectVertexMove K
        else if (point K moving \<and> polygon K remaining) \<or> (edge K moving \<and> edge K remaining)
          then acceptVertexMove result
        else case invertIfNecessary K (remaining, moving, delta) of
          (remaining', moving', delta') \<Rightarrow>
            if travelsThrough K moving' remaining' delta' then rejectVertexMove K
            else acceptVertexMove result)"

text \<open>\<open>Brush::canMoveVertices\<close>.\<close>

definition canMoveVertices ::
  "('g, 'f) kernel \<Rightarrow> bbox3 \<Rightarrow> 'g \<Rightarrow> vec3 list \<Rightarrow> vec3 \<Rightarrow> bool" where
  "canMoveVertices K worldBounds g vertices delta =
     success (doCanMoveVertices K worldBounds g vertices delta True)"

text \<open>
  The position at which a vertex of the brush enters \<open>result\<close>: displaced by \<open>delta\<close> when it
  is one of the moving vertices, unchanged otherwise.
\<close>

definition movedPosition :: "vec3 list \<Rightarrow> vec3 \<Rightarrow> vec3 \<Rightarrow> vec3" where
  "movedPosition vertexSet delta position =
     (if position \<in> set vertexSet then vadd position delta else position)"

text \<open>
  The conditions under which \<open>doCanMoveVertices\<close> gets past every earlier return and reaches
  the sweep (the "check" cells of the table in the source, after the inversion).
\<close>

definition reachesCheck ::
  "('g, 'f) kernel \<Rightarrow> bbox3 \<Rightarrow> 'g \<Rightarrow> vec3 list \<Rightarrow> vec3 \<Rightarrow> bool \<Rightarrow> bool" where
  "reachesCheck K worldBounds g vertexPositions0 delta allowVertexRemoval =
     (vertexPositions0 \<noteq> [] \<and> \<not> is_zero delta (almost_zero K) \<and>
      (case fragments K g vertexPositions0 delta of (remaining, moving, result) \<Rightarrow>
         bbox_contains worldBounds (bounds K result) \<and>
         vertexCount K moving \<noteq> vertexCount K g \<and>
         (allowVertexRemoval \<or>
          list_all (\<lambda>movingVertex. hasVertex K result (vadd movingVertex delta))
            (vertexPositions K moving)) \<and>
         polyhedron K result \<and>
         \<not> ((point K moving \<and> polygon K remaining) \<or> (edge K moving \<and> edge K remaining))))"

text \<open>The fragments and the delta the sweep works on.\<close>

definition sweepRemaining :: "('g, 'f) kernel \<Rightarrow> 'g \<Rightarrow> vec3 list \<Rightarrow> vec3 \<Rightarrow> 'g" where
  "sweepRemaining K g vertexPositions0 delta =
     (case fragments K g vertexPositions0 delta of (remaining, moving, result) \<Rightarrow>
        fst (invertIfNecessary K (remaining, moving, delta)))"

definition sweepMoving :: "('g, 'f) kernel \<Rightarrow> 'g \<Rightarrow> vec3 list \<Rightarrow> vec3 \<Rightarrow> 'g" where
  "sweepMoving K g vertexPositions0 delta =
     (case fragments K g vertexPositions0 delta of (remaining, moving, result) \<Rightarrow>
        fst (snd (invertIfNecessary K (remaining, moving, delta))))"

definition sweepDelta :: "('g, 'f) kernel \<Rightarrow> 'g \<Rightarrow> vec3 list \<Rightarrow> vec3 \<Rightarrow> vec3" where
  "sweepDelta K g vertexPositions0 delta =
     (case fragments K g vertexPositions0 delta of (remaining, moving, result) \<Rightarrow>
        snd (snd (invertIfNecessary K (remaining, moving, delta))))"


section \<open>Edge and face moves\<close>

text \<open>
  A failed \<open>ensure\<close> and a thrown \<open>GeometryException\<close> are results of the model; the string is
  the message of the source. \<open>NullPointer\<close> is the result of a call through a null payload.
\<close>

datatype error = EnsureFailed string | GeometryException string | NullPointer

text \<open>
  Modelled from the spec: \<open>vm::segment3::get_vertices\<close> and \<open>vm::polygon3::get_vertices\<close> are
  not part of the sources at hand; they append the end points of every segment (the vertices
  of every polygon) to the output, in order.
\<close>

definition segment_get_vertices :: "segment3 list \<Rightarrow> vec3 list" where
  "segment_get_vertices edgePositions =
     concat (map (\<lambda>e. [seg_start e, seg_end e]) edgePositions)"

definition polygon_get_vertices :: "polygon3 list \<Rightarrow> vec3 list" where
  "polygon_get_vertices facePositions = concat facePositions"

text \<open>\<open>face.vertices() + delta\<close>: every vertex of the polygon displaced by \<open>delta\<close>.\<close>

definition translateVertices :: "vec3 list \<Rightarrow> vec3 \<Rightarrow> vec3 list" where
  "translateVertices vs delta = map (\<lambda>v. vadd v delta) vs"

text \<open>The loops of \<open>canMoveEdges\<close> and \<open>canMoveFaces\<close> over the given edges and faces.\<close>

fun allEdgesInResult :: "('g, 'f) kernel \<Rightarrow> 'g \<Rightarrow> vec3 \<Rightarrow> segment3 list \<Rightarrow> bool" where
  "allEdgesInResult K geo delta [] = True"
| "allEdgesInResult K geo delta (e # es) =
     (if \<not> hasEdge K geo (vadd (seg_start e) delta) (vadd (seg_end e) delta) then False
      else allEdgesInResult K geo delta es)"

fun allFacesInResult :: "('g, 'f) kernel \<Rightarrow> 'g \<Rightarrow> vec3 \<Rightarrow> polygon3 list \<Rightarrow> bool" where
  "allFacesInResult K geo delta [] = True"
| "allFacesInResult K geo delta (face # fs) =
     (if \<not> hasFace K geo (translateVertices face delta) then False
      else allFacesInResult K geo delta fs)"

text \<open>
  \<open>Brush::canMoveEdges\<close> and \<open>Brush::canMoveFaces\<close>; the argument \<open>m_geometry0\<close> is the
  receiver's \<open>m_geometry\<close>, \<open>None\<close> for a null pointer.
\<close>

definition canMoveEdges ::
  "('g, 'f) kernel \<Rightarrow> bbox3 \<Rightarrow> 'g option \<Rightarrow> segment3 list \<Rightarrow> vec3 \<Rightarrow> error + bool" where
  "canMoveEdges K worldBounds m_geometry0 edgePositions delta =
     (case m_geometry0 of
        None \<Rightarrow> Inl (EnsureFailed ''geometry is null'')
      | Some g \<Rightarrow>
          if edgePositions = [] then Inl (EnsureFailed ''no edge positions'')
          else
            let result = doCanMoveVertices K worldBounds g
                           (segment_get_vertices edgePositions) delta False
            in if \<not> success result then Inr False
               else Inr (allEdgesInResult K (geometry result) delta edgePositions))"

definition canMoveFaces ::
  "('g, 'f) kernel \<Rightarrow> bbox3 \<Rightarrow> 'g option \<Rightarrow> polygon3 list \<Rightarrow> vec3 \<Rightarrow> error + bool" where
  "canMoveFaces K worldBounds m_geometry0 facePositions delta =
     (case m_geometry0 of
        None \<Rightarrow> Inl (EnsureFailed ''geometry is null'')
      | Some g \<Rightarrow>
          if facePositions = [] then Inl (EnsureFailed ''no face positions'')
          else
            let result = doCanMoveVertices K worldBounds g
                           (polygon_get_vertices facePositions) delta False
            in if \<not> success result then Inr False
               else Inr (allFacesInResult K (geometry result) delta facePositions))"

section \<open>Adding, removing and snapping vertices\<close>

text \<open>\<open>Brush::canAddVertex\<close>.\<close>

definition canAddVertex ::
  "('g, 'f) kernel \<Rightarrow> bbox3 \<Rightarrow> 'g option \<Rightarrow> vec3 \<Rightarrow> error + bool" where
  "canAddVertex K worldBounds m_geometry0 position =
     (case m_geometry0 of
        None \<Rightarrow> Inl (EnsureFailed ''geometry is null'')
      | Some g \<Rightarrow> Inr (bbox_contains_point worldBounds position \<and> \<not> contains K g position))"

text \<open>
  The candidate of \<open>canRemoveVertices\<close> (and of \<open>removeVertices\<close>): the vertices of the brush
  that are not in the given set, added to an empty geometry in list order.
\<close>

definition removeCandidate :: "('g, 'f) kernel \<Rightarrow> 'g \<Rightarrow> vec3 list \<Rightarrow> 'g" where
  "removeCandidate K g vertexPositions0 =
     foldl (\<lambda>testGeometry position.
              if position \<notin> set vertexPositions0 then addPoint K testGeometry position
              else testGeometry)
       (emptyGeometry K) (vertexPositions K g)"

definition canRemoveVertices ::
  "('g, 'f) kernel \<Rightarrow> bbox3 \<Rightarrow> 'g option \<Rightarrow> vec3 list \<Rightarrow> error + bool" where
  "canRemoveVertices K worldBounds m_geometry0 vertexPositions0 =
     (case m_geometry0 of
        None \<Rightarrow> Inl (EnsureFailed ''geometry is null'')
      | Some g \<Rightarrow>
          if vertexPositions0 = [] then Inl (EnsureFailed ''no vertex positions'')
          else Inr (polyhedron K (removeCandidate K g vertexPositions0)))"

text \<open>
  Modelled from the spec: \<open>vm::round\<close> is not part of the sources at hand; every component is
  rounded to the nearest integer, halves away from zero (as \<open>std::round\<close> does).
\<close>

definition round1 :: "FloatType \<Rightarrow> FloatType" where
  "round1 x = (if 0 \<le> x then of_int \<lfloor>x + 1 / 2\<rfloor> else - of_int \<lfloor>- x + 1 / 2\<rfloor>)"

text \<open>\<open>snapToF * round(origin / snapToF)\<close>.\<close>

fun snapDestination :: "FloatType \<Rightarrow> vec3 \<Rightarrow> vec3" where
  "snapDestination snapToF (a, b, c) =
     (snapToF * round1 (a / snapToF), snapToF * round1 (b / snapToF),
      snapToF * round1 (c / snapToF))"

definition snapCandidate :: "('g, 'f) kernel \<Rightarrow> 'g \<Rightarrow> FloatType \<Rightarrow> 'g" where
  "snapCandidate K g snapToF =
     foldl (\<lambda>newGeometry origin0. addPoint K newGeometry (snapDestination snapToF origin0))
       (emptyGeometry K) (vertexPositions K g)"

text \<open>\<open>Brush::canSnapVertices\<close>, which dereferences \<open>m_geometry\<close> without a check.\<close>

definition canSnapVertices :: "('g, 'f) kernel \<Rightarrow> bbox3 \<Rightarrow> 'g \<Rightarrow> FloatType \<Rightarrow> bool" where
  "canSnapVertices K worldBounds g snapToF = polyhedron K (snapCandidate K g snapToF)"

section \<open>Faces, geometry payloads and the rebuild\<close>

text \<open>
  \<open>BrushFace\<close>, the texture coordinate system, the matrices of vecmath and
  \<open>PolyhedronMatcher\<close> are declared outside the sources at hand as well. \<open>Brush.cpp\<close> uses
  them through the operations collected in the record \<open>builder\<close>; \<open>'bf\<close> is the type of a
  \<open>BrushFace\<close>, \<open>'m\<close> of a \<open>vm::mat4x4\<close>, \<open>'a\<close> of the \<open>BrushFaceAttributes\<close> and \<open>'s\<close> of a
  \<open>TexCoordSystemSnapshot\<close>. A \<open>BrushFace\<close> is a value here: the pointer from a geometry face
  to its \<open>BrushFace\<close> is the payload held by the geometry (\<open>payload\<close>, \<open>setPayload\<close>), and
  \<open>BrushFace::setGeometry(f)\<close> is the update of the payload of \<open>f\<close>, which is what it does on
  the side of the geometry. Deleting a \<open>BrushFace\<close> leaves no trace in a value.
\<close>

record plane3 =
  normal :: vec3
  distance :: FloatType

datatype WrapStyle = Projection | Rotation

text \<open>The notifications a clip sends to its \<open>BrushGeometry::Callback\<close>.\<close>

datatype 'f callback_event =
    FaceWasCreated 'f
  | FaceWasSplit 'f 'f
  | FaceWillBeDeleted 'f

text \<open>
  A \<open>PolyhedronMatcher\<close> is built from the old geometry, the new geometry and, optionally, a
  map from old to new vertex positions (a \<open>std::map\<close>, kept as the list of its entries).
\<close>

record 'g matcher =
  matcher_left :: 'g
  matcher_right :: 'g
  matcher_vertexMap :: "(vec3 \<times> vec3) list option"

text \<open>
  \<^item> \<open>boundsGeometry b\<close>: the constructor \<open>BrushGeometry(b)\<close>;
  \<^item> \<open>clip g p\<close>: \<open>g.clip(p, callback)\<close>: the clipped geometry, in which every face that
    survives keeps its payload, the notifications sent to the callback in order, and
    whether the result is empty;
  \<^item> \<open>correctVertexPositions\<close>; \<open>healEdges g\<close>: the healed geometry and the success flag
    (the \<open>HealEdgesCallback\<close> only deletes the payloads of faces that leave the geometry);
  \<^item> \<open>payload\<close>, \<open>setPayload\<close>: the payload of a face of a geometry;
  \<^item> \<open>matchedFaces m\<close>: the pairs (old face, new face) that \<open>m.processRightFaces\<close> visits,
    in order; \<open>matchingVertexPairs m l r\<close>: the pairs of vertex positions that
    \<open>m.visitMatchingVertexPairs(l, r, ...)\<close> visits, in order;
  \<^item> \<open>clone\<close>, \<open>boundary\<close>, \<open>attributes\<close>, \<open>setAttributes\<close>, \<open>takeTexCoordSystemSnapshot\<close>,
    \<open>copyTexCoordSystemFromFace\<close>, \<open>resetTexCoordSystemCache\<close>: the methods of \<open>BrushFace\<close>;
    \<open>updatePointsFromVertices f\<close>: the same for a face bound to the geometry face \<open>f\<close>;
    \<open>transform M lock face\<close>: \<open>face->transform(M, lock)\<close>, \<open>Inl msg\<close> when it throws
    \<open>GeometryException(msg)\<close>;
  \<^item> \<open>sortFaces\<close>: \<open>BrushFace::sortFaces\<close>;
  \<^item> \<open>translation_matrix\<close>, \<open>points_transformation_matrix\<close>: the functions of vecmath;
    \<open>entries M\<close>: the sixteen entries of the matrix \<open>M\<close>; \<open>mat4x4\<close>: the default
    constructor.
\<close>

record ('g, 'f, 'bf, 'm, 'a, 's) builder =
  boundsGeometry :: "bbox3 \<Rightarrow> 'g"
  clip :: "'g \<Rightarrow> plane3 \<Rightarrow> 'g \<times> 'f callback_event list \<times> bool"
  correctVertexPositions :: "'g \<Rightarrow> 'g"
  healEdges :: "'g \<Rightarrow> 'g \<times> bool"
  payload :: "'g \<Rightarrow> 'f \<Rightarrow> 'bf option"
  setPayload :: "'g \<Rightarrow> 'f \<Rightarrow> 'bf option \<Rightarrow> 'g"
  matchedFaces :: "'g matcher \<Rightarrow> ('f \<times> 'f) list"
  matchingVertexPairs :: "'g matcher \<Rightarrow> 'f \<Rightarrow> 'f \<Rightarrow> (vec3 \<times> vec3) list"
  clone :: "'bf \<Rightarrow> 'bf"
  boundary :: "'bf \<Rightarrow> plane3"
  transform :: "'m \<Rightarrow> bool \<Rightarrow> 'bf \<Rightarrow> string + 'bf"
  attributes :: "'bf \<Rightarrow> 'a"
  setAttributes :: "'a \<Rightarrow> 'bf \<Rightarrow> 'bf"
  takeTexCoordSystemSnapshot :: "'bf \<Rightarrow> 's option"
  copyTexCoordSystemFromFace :: "'s \<Rightarrow> 'a \<Rightarrow> plane3 \<Rightarrow> WrapStyle \<Rightarrow> 'bf \<Rightarrow> 'bf"
  resetTexCoordSystemCache :: "'bf \<Rightarrow> 'bf"
  updatePointsFromVertices :: "'f \<Rightarrow> 'bf \<Rightarrow> 'bf"
  sortFaces :: "'bf list \<Rightarrow> 'bf list"
  translation_matrix :: "vec3 \<Rightarrow> 'm"
  points_transformation_matrix :: "vec3 \<Rightarrow> vec3 \<Rightarrow> vec3 \<Rightarrow> vec3 \<Rightarrow> vec3 \<Rightarrow> vec3 \<Rightarrow> 'm"
  entries :: "'m \<Rightarrow> entry list"
  mat4x4 :: 'm

text \<open>The data members of a \<open>Brush\<close>.\<close>

record ('bf, 'g) brush =
  m_faces :: "'bf list"
  m_geometry :: "'g option"
  m_transparent :: bool

text \<open>
  Modelled from the spec: \<open>vm::bbox3::expand\<close> is not part of the sources at hand; the box
  grows by the given amount in every direction.
\<close>

definition bbox_expand :: "bbox3 \<Rightarrow> FloatType \<Rightarrow> bbox3" where
  "bbox_expand b f = \<lparr>bmin = vsub (bmin b) (f, f, f), bmax = vadd (bmax b) (f, f, f)\<rparr>"

subsection \<open>AddFacesToGeometry\<close>

text \<open>
  \<open>AddFaceToGeometryCallback\<close>: the state is the geometry and the member \<open>m_addedFace\<close>. The
  face that is created receives the added face as its payload; the clone of a split face
  receives a clone of the payload of the original. The source asserts that \<open>m_addedFace\<close> is
  not null when a face is created, a clip creating one face at most; the model of a second
  creation sets a null payload.
\<close>

fun addFaceCallback ::
  "('g, 'f, 'bf, 'm, 'a, 's) builder \<Rightarrow> 'g \<times> 'bf option \<Rightarrow> 'f callback_event \<Rightarrow> 'g \<times> 'bf option"
  where
  "addFaceCallback B (g, m_addedFace) (FaceWasCreated face) =
     (setPayload B g face m_addedFace, None)"
| "addFaceCallback B (g, m_addedFace) (FaceWasSplit original clone0) =
     (case payload B g original of
        None \<Rightarrow> (g, m_addedFace)
      | Some brushFace \<Rightarrow> (setPayload B g clone0 (Some (clone B brushFace)), m_addedFace))"
| "addFaceCallback B (g, m_addedFace) (FaceWillBeDeleted face) =
     (setPayload B g face None, m_addedFace)"

text \<open>
  The loop of the constructor of \<open>AddFacesToGeometry\<close>: it clips by one face after the other
  and stops as soon as the brush is empty. The result is the geometry and \<open>m_brushEmpty\<close>.
\<close>

fun clipByFaces ::
  "('g, 'f, 'bf, 'm, 'a, 's) builder \<Rightarrow> 'g \<Rightarrow> 'bf list \<Rightarrow> 'g \<times> bool" where
  "clipByFaces B g [] = (g, False)"
| "clipByFaces B g (brushFace # rest) =
     (case clip B g (boundary B brushFace) of
        (g', events, resultEmpty) \<Rightarrow>
          let g'' = fst (foldl (addFaceCallback B) (g', Some brushFace) events)
          in if resultEmpty then (g'', True) else clipByFaces B g'' rest)"

record 'g AddFacesToGeometry =
  geometryAfter :: 'g
  brushEmpty :: bool
  brushValid :: bool

definition addFacesToGeometry ::
  "('g, 'f, 'bf, 'm, 'a, 's) builder \<Rightarrow> 'g \<Rightarrow> 'bf list \<Rightarrow> 'g AddFacesToGeometry" where
  "addFacesToGeometry B g facesToAdd =
     (case clipByFaces B g (sortFaces B facesToAdd) of
        (g', m_brushEmpty) \<Rightarrow>
          if \<not> m_brushEmpty
          then (case healEdges B (correctVertexPositions B g') of
                  (g'', m_brushValid) \<Rightarrow>
                    \<lparr>geometryAfter = g'', brushEmpty = m_brushEmpty, brushValid = m_brushValid\<rparr>)
          else \<lparr>geometryAfter = g', brushEmpty = m_brushEmpty, brushValid = True\<rparr>)"

subsection \<open>Building and rebuilding the geometry of a brush\<close>

text \<open>
  \<open>Brush::fullySpecified\<close>, as a loop over the faces of the geometry that returns at the
  first null payload.
\<close>

fun allPayloadsSet :: "('g, 'f, 'bf, 'm, 'a, 's) builder \<Rightarrow> 'g \<Rightarrow> 'f list \<Rightarrow> bool" where
  "allPayloadsSet B g [] = True"
| "allPayloadsSet B g (current # rest) =
     (if payload B g current = None then False else allPayloadsSet B g rest)"

definition fullySpecified ::
  "('g, 'f) kernel \<Rightarrow> ('g, 'f, 'bf, 'm, 'a, 's) builder \<Rightarrow> ('bf, 'g) brush \<Rightarrow> error + bool" where
  "fullySpecified K B brush =
     (case m_geometry brush of
        None \<Rightarrow> Inl (EnsureFailed ''geometry is null'')
      | Some g \<Rightarrow> Inr (allPayloadsSet B g (faces K g)))"

text \<open>
  \<open>Brush::updateFacesFromGeometry\<close>: the face list becomes the list of the payloads of the
  faces of the geometry, in order, each with its cache reset. The payload is the same
  object, so the geometry sees the reset too. The state of the loop is the face list and
  the geometry.
\<close>

definition updateFaceFromGeometry ::
  "('g, 'f, 'bf, 'm, 'a, 's) builder \<Rightarrow> 'bf list \<times> 'g \<Rightarrow> 'f \<Rightarrow> 'bf list \<times> 'g" where
  "updateFaceFromGeometry B s faceG =
     (case s of (fs, g) \<Rightarrow>
        (case payload B g faceG of
           None \<Rightarrow> (fs, g)
         | Some face \<Rightarrow>
             (fs @ [resetTexCoordSystemCache B face],
              setPayload B g faceG (Some (resetTexCoordSystemCache B face)))))"

definition updateFacesFromGeometry ::
  "('g, 'f) kernel \<Rightarrow> ('g, 'f, 'bf, 'm, 'a, 's) builder \<Rightarrow> 'g \<Rightarrow> 'bf list \<times> 'g" where
  "updateFacesFromGeometry K B brushGeometry =
     foldl (updateFaceFromGeometry B) ([], brushGeometry) (faces K brushGeometry)"

text \<open>
  \<open>Brush::buildGeometry\<close>. An exception does not undo the assignments made before it, so
  the function returns what was thrown, if anything, together with the brush as it is left.
\<close>

definition buildGeometry ::
  "('g, 'f) kernel \<Rightarrow> ('g, 'f, 'bf, 'm, 'a, 's) builder \<Rightarrow> bbox3 \<Rightarrow> ('bf, 'g) brush \<Rightarrow>
     error option \<times> ('bf, 'g) brush" where
  "buildGeometry K B worldBounds brush =
     (let added = addFacesToGeometry B (boundsGeometry B (bbox_expand worldBounds 1))
                    (m_faces brush);
          updated = updateFacesFromGeometry K B (geometryAfter added);
          brush' = brush\<lparr>m_faces := fst updated, m_geometry := Some (snd updated)\<rparr>
      in if brushEmpty added then (Some (GeometryException ''Brush is empty''), brush')
         else if \<not> brushValid added then (Some (GeometryException ''Brush is invalid''), brush')
         else if fullySpecified K B brush' \<noteq> Inr True
           then (Some (GeometryException ''Brush is not fully specified''), brush')
         else (None, brush'))"

text \<open>\<open>Brush::deleteGeometry\<close> and \<open>Brush::rebuildGeometry\<close>.\<close>

definition deleteGeometry :: "('bf, 'g) brush \<Rightarrow> ('bf, 'g) brush" where
  "deleteGeometry brush = brush\<lparr>m_geometry := None\<rparr>"

definition rebuildGeometry ::
  "('g, 'f) kernel \<Rightarrow> ('g, 'f, 'bf, 'm, 'a, 's) builder \<Rightarrow> bbox3 \<Rightarrow> ('bf, 'g) brush \<Rightarrow>
     error option \<times> ('bf, 'g) brush" where
  "rebuildGeometry K B worldBounds brush = buildGeometry K B worldBounds (deleteGeometry brush)"

subsection \<open>Copying, expanding and transforming a brush\<close>

text \<open>
  \<open>CopyCallback::faceWasCopied\<close>: the copy of a geometry face receives the clone that the
  face map holds for the payload of the original. The map is keyed by the \<open>BrushFace\<close>; a
  null payload is not a key.
\<close>

definition faceWasCopied ::
  "('g, 'f, 'bf, 'm, 'a, 's) builder \<Rightarrow> ('bf \<times> 'bf) list \<Rightarrow> error + 'g \<Rightarrow> 'f \<Rightarrow> error + 'g" where
  "faceWasCopied B faceMap s original =
     (case s of
        Inl e \<Rightarrow> Inl e
      | Inr g \<Rightarrow>
          (case payload B g original of
             None \<Rightarrow> Inl (EnsureFailed ''face payload not found'')
           | Some p \<Rightarrow>
               (case map_of faceMap p of
                  None \<Rightarrow> Inl (EnsureFailed ''face payload not found'')
                | Some face \<Rightarrow> Inr (setPayload B g original (Some face)))))"

text \<open>The copy constructor \<open>Brush(const Brush& other)\<close>.\<close>

definition copyBrush ::
  "('g, 'f) kernel \<Rightarrow> ('g, 'f, 'bf, 'm, 'a, 's) builder \<Rightarrow> ('bf, 'g) brush \<Rightarrow>
     error + ('bf, 'g) brush" where
  "copyBrush K B other =
     (let faceClones = map (clone B) (m_faces other);
          faceMap = zip (m_faces other) faceClones
      in case m_geometry other of
           None \<Rightarrow>
             Inr \<lparr>m_faces = faceClones, m_geometry = None, m_transparent = m_transparent other\<rparr>
         | Some g \<Rightarrow>
             (case foldl (faceWasCopied B faceMap) (Inr g) (faces K g) of
                Inl e \<Rightarrow> Inl e
              | Inr g' \<Rightarrow>
                  Inr \<lparr>m_faces = faceClones, m_geometry = Some g',
                       m_transparent = m_transparent other\<rparr>))"

text \<open>
  The loops \<open>for (face : m_faces) face->transform(...)\<close> of \<open>expand\<close> and \<open>transform\<close>: the
  faces are overwritten one after the other; when a face throws, the faces before it stay
  transformed. \<open>matrixOf\<close> gives the matrix for a face.
\<close>

fun transformFaces ::
  "('g, 'f, 'bf, 'm, 'a, 's) builder \<Rightarrow> ('bf \<Rightarrow> 'm) \<Rightarrow> bool \<Rightarrow> 'bf list \<Rightarrow>
     string option \<times> 'bf list" where
  "transformFaces B matrixOf lockTexture [] = (None, [])"
| "transformFaces B matrixOf lockTexture (face # rest) =
     (case transform B (matrixOf face) lockTexture face of
        Inl msg \<Rightarrow> (Some msg, face # rest)
      | Inr face' \<Rightarrow>
          (case transformFaces B matrixOf lockTexture rest of
             (thrown, rest') \<Rightarrow> (thrown, face' # rest')))"

text \<open>
  \<open>Brush::expand\<close>: the result is what the call returns (\<open>Inl\<close> when an exception leaves it)
  and the brush as it is left.
\<close>

definition expand ::
  "('g, 'f) kernel \<Rightarrow> ('g, 'f, 'bf, 'm, 'a, 's) builder \<Rightarrow> bbox3 \<Rightarrow> FloatType \<Rightarrow> bool \<Rightarrow>
     ('bf, 'g) brush \<Rightarrow> (error + bool) \<times> ('bf, 'g) brush" where
  "expand K B worldBounds delta lockTexture brush =
     (case transformFaces B
             (\<lambda>face. translation_matrix B (vscale delta (normal (boundary B face))))
             lockTexture (m_faces brush) of
        (Some msg, fs) \<Rightarrow> (Inl (GeometryException msg), brush\<lparr>m_faces := fs\<rparr>)
      | (None, fs) \<Rightarrow>
          (case rebuildGeometry K B worldBounds (brush\<lparr>m_faces := fs\<rparr>) of
             (None, brush') \<Rightarrow> (Inr (m_faces brush' \<noteq> []), brush')
           | (Some (GeometryException msg), brush') \<Rightarrow> (Inr False, brush')
           | (Some e, brush') \<Rightarrow> (Inl e, brush')))"

text \<open>\<open>Brush::canExpand\<close>: the expansion of a copy.\<close>

definition canExpand ::
  "('g, 'f) kernel \<Rightarrow> ('g, 'f, 'bf, 'm, 'a, 's) builder \<Rightarrow> bbox3 \<Rightarrow> FloatType \<Rightarrow> bool \<Rightarrow>
     ('bf, 'g) brush \<Rightarrow> error + bool" where
  "canExpand K B worldBounds delta lockTexture brush =
     (case copyBrush K B brush of
        Inl e \<Rightarrow> Inl e
      | Inr testBrush \<Rightarrow> fst (expand K B worldBounds delta lockTexture testBrush))"

text \<open>\<open>Brush::transform\<close>: what was thrown, if anything, and the brush as it is left.\<close>

definition Brush_transform ::
  "('g, 'f) kernel \<Rightarrow> ('g, 'f, 'bf, 'm, 'a, 's) builder \<Rightarrow> 'm \<Rightarrow> bool \<Rightarrow> bbox3 \<Rightarrow>
     ('bf, 'g) brush \<Rightarrow> error option \<times> ('bf, 'g) brush" where
  "Brush_transform K B transformation lockTextures worldBounds brush =
     (case transformFaces B (\<lambda>face. transformation) lockTextures (m_faces brush) of
        (Some msg, fs) \<Rightarrow> (Some (GeometryException msg), brush\<lparr>m_faces := fs\<rparr>)
      | (None, fs) \<Rightarrow> rebuildGeometry K B worldBounds (brush\<lparr>m_faces := fs\<rparr>))"

text \<open>\<open>Brush::canTransform\<close>: the transformation of a copy, without texture lock.\<close>

definition canTransform ::
  "('g, 'f) kernel \<Rightarrow> ('g, 'f, 'bf, 'm, 'a, 's) builder \<Rightarrow> 'm \<Rightarrow> bbox3 \<Rightarrow>
     ('bf, 'g) brush \<Rightarrow> error + bool" where
  "canTransform K B transformation worldBounds brush =
     (case copyBrush K B brush of
        Inl e \<Rightarrow> Inl e
      | Inr testBrush \<Rightarrow>
          (case fst (Brush_transform K B transformation False worldBounds testBrush) of
             None \<Rightarrow> Inr True
           | Some (GeometryException msg) \<Rightarrow> Inr False
           | Some e \<Rightarrow> Inl e))"

subsection \<open>UV lock\<close>

text \<open>
  The two lists that \<open>findTransformForUVLock\<close> collects from the matching vertex pairs, and
  the list of reference pairs it forms from them: the unmoved vertices first, then the
  moved ones.
\<close>

definition unmovedVerts ::
  "('g, 'f) kernel \<Rightarrow> ('g, 'f, 'bf, 'm, 'a, 's) builder \<Rightarrow> 'g matcher \<Rightarrow> 'f \<Rightarrow> 'f \<Rightarrow> vec3 list"
  where
  "unmovedVerts K B matcher0 left right =
     map fst (filter (\<lambda>(leftPosition, rightPosition).
                        is_equal leftPosition rightPosition (almost_zero K))
                (matchingVertexPairs B matcher0 left right))"

definition movedVerts ::
  "('g, 'f) kernel \<Rightarrow> ('g, 'f, 'bf, 'm, 'a, 's) builder \<Rightarrow> 'g matcher \<Rightarrow> 'f \<Rightarrow> 'f \<Rightarrow>
     (vec3 \<times> vec3) list" where
  "movedVerts K B matcher0 left right =
     filter (\<lambda>(leftPosition, rightPosition).
               \<not> is_equal leftPosition rightPosition (almost_zero K))
       (matchingVertexPairs B matcher0 left right)"

definition referenceVerts ::
  "('g, 'f) kernel \<Rightarrow> ('g, 'f, 'bf, 'm, 'a, 's) builder \<Rightarrow> 'g matcher \<Rightarrow> 'f \<Rightarrow> 'f \<Rightarrow>
     (vec3 \<times> vec3) list" where
  "referenceVerts K B matcher0 left right =
     map (\<lambda>unmovedVert. (unmovedVert, unmovedVert)) (unmovedVerts K B matcher0 left right) @
     movedVerts K B matcher0 left right"

text \<open>
  Modelled from the spec: \<open>operator==\<close> on matrices is not part of the sources at hand; two
  matrices are equal when their entries are, one by one, under the \<open>==\<close> of \<open>double\<close>. The
  test \<open>!(M == M)\<close> of \<open>findTransformForUVLock\<close> relies on it ("Transform contains nan").
\<close>

definition mat_equal :: "('g, 'f, 'bf, 'm, 'a, 's) builder \<Rightarrow> 'm \<Rightarrow> 'm \<Rightarrow> bool" where
  "mat_equal B M N = list_all2 entry_equal (entries B M) (entries B N)"

text \<open>The matrix that takes the first three reference vertices to their new positions.\<close>

definition referenceTransform ::
  "('g, 'f, 'bf, 'm, 'a, 's) builder \<Rightarrow> (vec3 \<times> vec3) list \<Rightarrow> 'm" where
  "referenceTransform B refs =
     points_transformation_matrix B (fst (refs ! 0)) (fst (refs ! 1)) (fst (refs ! 2))
       (snd (refs ! 0)) (snd (refs ! 1)) (snd (refs ! 2))"

text \<open>\<open>Brush::findTransformForUVLock\<close>.\<close>

definition findTransformForUVLock ::
  "('g, 'f) kernel \<Rightarrow> ('g, 'f, 'bf, 'm, 'a, 's) builder \<Rightarrow> 'g matcher \<Rightarrow> 'f \<Rightarrow> 'f \<Rightarrow> bool \<times> 'm"
  where
  "findTransformForUVLock K B matcher0 left right =
     (if 3 \<le> length (unmovedVerts K B matcher0 left right) then (False, mat4x4 B)
      else
        let refs = referenceVerts K B matcher0 left right
        in if length refs < 3 then (False, mat4x4 B)
           else
             let M = referenceTransform B refs
             in if \<not> mat_equal B M M then (False, mat4x4 B) else (True, M))"

text \<open>
  The body of the \<open>try\<close> block of \<open>applyUVLock\<close> after the transformation of the clone: the
  right face takes the attributes and the texture coordinate system of the clone.
\<close>

definition copyTexturing ::
  "('g, 'f, 'bf, 'm, 'a, 's) builder \<Rightarrow> 'bf \<Rightarrow> 'bf \<Rightarrow> 'bf" where
  "copyTexturing B leftClone rightFace =
     (let rightFace1 = setAttributes B (attributes B leftClone) rightFace;
          rightFace2 =
            (case takeTexCoordSystemSnapshot B leftClone of
               None \<Rightarrow> rightFace1
             | Some snapshot \<Rightarrow>
                 copyTexCoordSystemFromFace B snapshot (attributes B leftClone)
                   (boundary B leftClone) Rotation rightFace1)
      in resetTexCoordSystemCache B rightFace2)"

text \<open>
  \<open>Brush::applyUVLock\<close>. The left face belongs to the old geometry (the left geometry of the
  matcher); the right face belongs to the new geometry, which is the state. The payload of
  the left face is dereferenced before the \<open>try\<close> block, that of the right face inside it,
  after the transformation; a \<open>GeometryException\<close> of the transformation is swallowed.
\<close>

definition applyUVLock ::
  "('g, 'f) kernel \<Rightarrow> ('g, 'f, 'bf, 'm, 'a, 's) builder \<Rightarrow> 'g matcher \<Rightarrow> 'f \<Rightarrow> 'f \<Rightarrow> 'g \<Rightarrow>
     error + 'g" where
  "applyUVLock K B matcher0 left right newGeometry =
     (case findTransformForUVLock K B matcher0 left right of
        (False, M) \<Rightarrow> Inr newGeometry
      | (True, M) \<Rightarrow>
          (case payload B (matcher_left matcher0) left of
             None \<Rightarrow> Inl NullPointer
           | Some leftFace \<Rightarrow>
               (case transform B M True (clone B leftFace) of
                  Inl msg \<Rightarrow> Inr newGeometry
                | Inr leftClone \<Rightarrow>
                    (case payload B newGeometry right of
                       None \<Rightarrow> Inl NullPointer
                     | Some rightFace \<Rightarrow>
                         Inr (setPayload B newGeometry right
                                (Some (copyTexturing B leftClone rightFace)))))))"

subsection \<open>Installing a new geometry\<close>

text \<open>
  The visitor that \<open>doSetNewGeometry\<close> passes to \<open>processRightFaces\<close>; the state is the new
  geometry.
\<close>

definition visitRightFace ::
  "('g, 'f) kernel \<Rightarrow> ('g, 'f, 'bf, 'm, 'a, 's) builder \<Rightarrow> 'g matcher \<Rightarrow> bool \<Rightarrow>
     error + 'g \<Rightarrow> 'f \<times> 'f \<Rightarrow> error + 'g" where
  "visitRightFace K B matcher0 uvLock s lr =
     (case s of
        Inl e \<Rightarrow> Inl e
      | Inr newGeometry \<Rightarrow>
          (case lr of (left, right) \<Rightarrow>
             (case payload B (matcher_left matcher0) left of
                None \<Rightarrow> Inl NullPointer
              | Some leftFace \<Rightarrow>
                  let rightFace = clone B leftFace;
                      g1 = setPayload B newGeometry right (Some rightFace);
                      g2 = setPayload B g1 right (Some (updatePointsFromVertices B right rightFace))
                  in if uvLock then applyUVLock K B matcher0 left right g2 else Inr g2)))"

text \<open>\<open>Brush::doSetNewGeometry\<close>.\<close>

definition doSetNewGeometry ::
  "('g, 'f) kernel \<Rightarrow> ('g, 'f, 'bf, 'm, 'a, 's) builder \<Rightarrow> bbox3 \<Rightarrow> 'g matcher \<Rightarrow> 'g \<Rightarrow> bool \<Rightarrow>
     ('bf, 'g) brush \<Rightarrow> error option \<times> ('bf, 'g) brush" where
  "doSetNewGeometry K B worldBounds matcher0 newGeometry uvLock brush =
     (case foldl (visitRightFace K B matcher0 uvLock) (Inr newGeometry)
             (matchedFaces B matcher0) of
        Inl e \<Rightarrow> (Some e, brush)
      | Inr newGeometry' \<Rightarrow>
          rebuildGeometry K B worldBounds
            (brush\<lparr>m_faces := fst (updateFacesFromGeometry K B newGeometry')\<rparr>))"

subsection \<open>Moving vertices\<close>

text \<open>
  The two loops of \<open>doMoveVertices\<close>: the new geometry, and the map from the old position
  of every vertex to the position of the vertex of the new geometry closest to where it
  should be (\<open>std::map::insert\<close> keeps the first entry of a key).
\<close>

definition moveCandidate :: "('g, 'f) kernel \<Rightarrow> 'g \<Rightarrow> vec3 list \<Rightarrow> vec3 \<Rightarrow> 'g" where
  "moveCandidate K g vertexPositions0 delta =
     foldl (\<lambda>newGeometry position.
              if position \<in> set vertexPositions0
              then addPoint K newGeometry (vadd position delta)
              else addPoint K newGeometry position)
       (emptyGeometry K) (vertexPositions K g)"

definition insertVertexMapping ::
  "('g, 'f) kernel \<Rightarrow> 'g \<Rightarrow> vec3 list \<Rightarrow> vec3 \<Rightarrow> (vec3 \<times> vec3) list \<Rightarrow> vec3 \<Rightarrow>
     (vec3 \<times> vec3) list" where
  "insertVertexMapping K newGeometry vertexPositions0 delta vertexMapping oldPosition =
     (let newPosition =
            (if oldPosition \<in> set vertexPositions0 then vadd oldPosition delta else oldPosition)
      in case findClosestVertex K newGeometry newPosition (almost_zero K) of
           None \<Rightarrow> vertexMapping
         | Some newVertex \<Rightarrow>
             if oldPosition \<in> fst ` set vertexMapping then vertexMapping
             else vertexMapping @ [(oldPosition, newVertex)])"

text \<open>
  \<open>Brush::doMoveVertices\<close>. The \<open>assert\<close> on \<open>canMoveVertices\<close> is compiled out of a release
  build and is not a branch of the model.
\<close>

definition doMoveVertices ::
  "('g, 'f) kernel \<Rightarrow> ('g, 'f, 'bf, 'm, 'a, 's) builder \<Rightarrow> bbox3 \<Rightarrow> vec3 list \<Rightarrow> vec3 \<Rightarrow> bool \<Rightarrow>
     ('bf, 'g) brush \<Rightarrow> error option \<times> ('bf, 'g) brush" where
  "doMoveVertices K B worldBounds vertexPositions0 delta uvLock brush =
     (case m_geometry brush of
        None \<Rightarrow> (Some (EnsureFailed ''geometry is null''), brush)
      | Some g \<Rightarrow>
          if vertexPositions0 = [] then (Some (EnsureFailed ''no vertex positions''), brush)
          else
            let newGeometry = moveCandidate K g vertexPositions0 delta;
                vertexMapping =
                  foldl (insertVertexMapping K newGeometry vertexPositions0 delta) []
                    (vertexPositions K g);
                matcher0 = \<lparr>matcher_left = g, matcher_right = newGeometry,
                            matcher_vertexMap = Some vertexMapping\<rparr>
            in doSetNewGeometry K B worldBounds matcher0 newGeometry uvLock brush)"

text \<open>
  The loop of \<open>moveVertices\<close> that collects the new positions: \<open>result\<close> grows at the back, by
  the position of the closest vertex of the new geometry when there is one.
\<close>

fun collectNewPositions ::
  "('g, 'f) kernel \<Rightarrow> 'g \<Rightarrow> vec3 \<Rightarrow> vec3 list \<Rightarrow> vec3 list \<Rightarrow> vec3 list" where
  "collectNewPositions K g delta result [] = result"
| "collectNewPositions K g delta result (position # rest) =
     (case findClosestVertex K g (vadd position delta) (almost_zero K) of
        None \<Rightarrow> collectNewPositions K g delta result rest
      | Some newVertex \<Rightarrow> collectNewPositions K g delta (result @ [newVertex]) rest)"

text \<open>
  \<open>Brush::moveVertices\<close>: the list it returns (\<open>Inl\<close> when an exception leaves it) and the
  brush as it is left.
\<close>

definition moveVertices ::
  "('g, 'f) kernel \<Rightarrow> ('g, 'f, 'bf, 'm, 'a, 's) builder \<Rightarrow> bbox3 \<Rightarrow> vec3 list \<Rightarrow> vec3 \<Rightarrow> bool \<Rightarrow>
     ('bf, 'g) brush \<Rightarrow> (error + vec3 list) \<times> ('bf, 'g) brush" where
  "moveVertices K B worldBounds vertexPositions0 delta uvLock brush =
     (case doMoveVertices K B worldBounds vertexPositions0 delta uvLock brush of
        (Some e, brush') \<Rightarrow> (Inl e, brush')
      | (None, brush') \<Rightarrow>
          (case m_geometry brush' of
             None \<Rightarrow> (Inl NullPointer, brush')
           | Some g' \<Rightarrow>
               (Inr (collectNewPositions K g' delta [] vertexPositions0), brush')))"

section \<open>A concrete kernel: convex hulls of points\<close>

text \<open>
  Modelled from the spec: the polyhedron kernel (\<open>Polyhedron\<close>, \<open>BrushGeometry\<close>), the matcher,
  \<open>BrushFace\<close> and the matrices of vecmath are not part of the sources at hand. The
  definitions of this section give one executable kernel that follows section 4 of the
  specification by brute force, for evaluating the functions above at concrete brushes. A
  geometry is the list of the vertices of the convex hull of the points added so far
  (\<open>addPoint\<close> has convex-hull insertion semantics), together with the payloads of its faces;
  the faces, the edges and the degeneracy class are computed from the vertices.
\<close>

text \<open>Membership in a list and inclusion of lists, by recursion over the list.\<close>

fun elemOf :: "'a \<Rightarrow> 'a list \<Rightarrow> bool" where
  "elemOf x [] = False"
| "elemOf x (y # ys) = (x = y \<or> elemOf x ys)"

fun subList :: "'a list \<Rightarrow> 'a list \<Rightarrow> bool" where
  "subList [] ys = True"
| "subList (x # xs) ys = (elemOf x ys \<and> subList xs ys)"

fun dot :: "vec3 \<Rightarrow> vec3 \<Rightarrow> FloatType" where
  "dot (a, b, c) (x, y, z) = a * x + b * y + c * z"

fun cross :: "vec3 \<Rightarrow> vec3 \<Rightarrow> vec3" where
  "cross (a, b, c) (x, y, z) = (b * z - c * y, c * x - a * z, a * y - b * x)"

definition zero3 :: vec3 where
  "zero3 = (0, 0, 0)"

text \<open>A normal of the plane through three points, by the right-hand rule.\<close>

definition normal3 :: "vec3 \<Rightarrow> vec3 \<Rightarrow> vec3 \<Rightarrow> vec3" where
  "normal3 a b c = cross (vsub b a) (vsub c a)"

text \<open>
  To do without square roots, a direction is scaled so that its largest component has
  absolute value one. For a direction along a coordinate axis this is the unit vector.
\<close>

fun maxNorm :: "vec3 \<Rightarrow> FloatType" where
  "maxNorm (a, b, c) = max \<bar>a\<bar> (max \<bar>b\<bar> \<bar>c\<bar>)"

definition hull_normalize :: "vec3 \<Rightarrow> vec3" where
  "hull_normalize v = (if v = zero3 then v else vscale (1 / maxNorm v) v)"

datatype degeneracy = Empty | Point | Edge | Polygon | Polyhedron

text \<open>
  The degeneracy class of a point set: the first point, the first point different from it,
  the first point not on the line through these two, the first point not in the plane
  through these three.
\<close>

definition classify :: "vec3 list \<Rightarrow> degeneracy" where
  "classify ps =
     (case ps of
        [] \<Rightarrow> Empty
      | a # _ \<Rightarrow>
          (case find (\<lambda>b. b \<noteq> a) ps of
             None \<Rightarrow> Point
           | Some b \<Rightarrow>
               (case find (\<lambda>c. normal3 a b c \<noteq> zero3) ps of
                  None \<Rightarrow> Edge
                | Some c \<Rightarrow>
                    (case find (\<lambda>d. dot (normal3 a b c) (vsub d a) \<noteq> 0) ps of
                       None \<Rightarrow> Polygon
                     | Some d \<Rightarrow> Polyhedron))))"

definition planeNormal :: "vec3 list \<Rightarrow> vec3" where
  "planeNormal ps =
     (case ps of
        [] \<Rightarrow> zero3
      | a # _ \<Rightarrow>
          (case find (\<lambda>b. b \<noteq> a) ps of
             None \<Rightarrow> zero3
           | Some b \<Rightarrow>
               (case find (\<lambda>c. normal3 a b c \<noteq> zero3) ps of
                  None \<Rightarrow> zero3
                | Some c \<Rightarrow> normal3 a b c)))"

text \<open>
  A face of a hull: an outward normal, a point of its plane, and its vertices.
\<close>

record hface =
  fnormal :: vec3
  fanchor :: vec3
  fvertices :: "vec3 list"

definition supporting :: "vec3 list \<Rightarrow> vec3 \<Rightarrow> vec3 \<Rightarrow> bool" where
  "supporting ps n a = (n \<noteq> zero3 \<and> list_all (\<lambda>s. dot n (vsub s a) \<le> 0) ps)"

text \<open>
  The pairs of different points of a list, each set of two points once, and the triples,
  each set of three points once in either orientation.
\<close>

fun upairs :: "vec3 list \<Rightarrow> (vec3 \<times> vec3) list" where
  "upairs [] = []"
| "upairs (b # cs) = map (\<lambda>c. (b, c)) cs @ upairs cs"

fun triples :: "vec3 list \<Rightarrow> (vec3 \<times> vec3 \<times> vec3) list" where
  "triples [] = []"
| "triples (a # ps) =
     concat (map (\<lambda>bc. [(a, fst bc, snd bc), (a, snd bc, fst bc)]) (upairs ps)) @ triples ps"

definition pairs :: "vec3 list \<Rightarrow> (vec3 \<times> vec3) list" where
  "pairs ps = concat (map (\<lambda>a. map (\<lambda>b. (a, b)) ps) ps)"

definition mkFace :: "vec3 list \<Rightarrow> vec3 \<times> vec3 \<times> vec3 \<Rightarrow> hface" where
  "mkFace ps t =
     (case t of (a, b, c) \<Rightarrow>
        \<lparr>fnormal = normal3 a b c, fanchor = a,
         fvertices = filter (\<lambda>s. dot (normal3 a b c) (vsub s a) = 0) ps\<rparr>)"

definition sameElements :: "vec3 list \<Rightarrow> vec3 list \<Rightarrow> bool" where
  "sameElements xs ys = (subList xs ys \<and> subList ys xs)"

fun dedupFaces :: "hface list \<Rightarrow> hface list \<Rightarrow> hface list" where
  "dedupFaces acc [] = rev acc"
| "dedupFaces acc (f # fs) =
     (if list_ex (\<lambda>h. sameElements (fvertices h) (fvertices f)) acc then dedupFaces acc fs
      else dedupFaces (f # acc) fs)"

text \<open>
  The faces of a full polyhedron: the planes through three of the points that have no
  point on their outer side, one face for each such plane.
\<close>

definition facets :: "vec3 list \<Rightarrow> hface list" where
  "facets ps =
     dedupFaces []
       (map (mkFace ps) (filter (\<lambda>(a, b, c). supporting ps (normal3 a b c) a) (triples ps)))"

text \<open>
  In a plane with normal \<open>n\<close>, the point \<open>s\<close> is not to the right of the line from \<open>u\<close> to
  \<open>v\<close>; a point of the plane is inside a convex polygon when it is on the inner side of
  every boundary line.
\<close>

definition leftOf :: "vec3 \<Rightarrow> vec3 \<Rightarrow> vec3 \<Rightarrow> vec3 \<Rightarrow> bool" where
  "leftOf n u v s = (0 \<le> dot (cross (vsub v u) (vsub s u)) n)"

definition boundaryLine :: "vec3 \<Rightarrow> vec3 list \<Rightarrow> vec3 \<times> vec3 \<Rightarrow> bool" where
  "boundaryLine n ps uv = (case uv of (u, v) \<Rightarrow> u \<noteq> v \<and> list_all (leftOf n u v) ps)"

definition insidePolygon :: "vec3 \<Rightarrow> vec3 list \<Rightarrow> vec3 \<Rightarrow> bool" where
  "insidePolygon n ps q =
     list_all (\<lambda>(u, v). leftOf n u v q) (filter (boundaryLine n ps) (pairs ps))"

text \<open>Membership of a point in the convex hull of a point set, by degeneracy class.\<close>

definition inHull :: "vec3 list \<Rightarrow> vec3 \<Rightarrow> bool" where
  "inHull ps q =
     (case classify ps of
        Empty \<Rightarrow> False
      | Point \<Rightarrow> list_ex (\<lambda>p. p = q) ps
      | Edge \<Rightarrow>
          list_all (\<lambda>(u, v). cross (vsub v u) (vsub q u) = zero3) (pairs ps) \<and>
          list_ex (\<lambda>(u, v). dot (vsub q u) (vsub q v) \<le> 0) (pairs ps)
      | Polygon \<Rightarrow>
          list_all (\<lambda>p. dot (planeNormal ps) (vsub q p) = 0) ps \<and>
          insidePolygon (planeNormal ps) ps q
      | Polyhedron \<Rightarrow>
          list_all (\<lambda>(a, b, c). dot (normal3 a b c) (vsub q a) \<le> 0)
            (filter (\<lambda>(a, b, c). supporting ps (normal3 a b c) a) (triples ps)))"

text \<open>The vertices of the hull: the points that are not in the hull of the others.\<close>

fun extremePoints :: "vec3 list \<Rightarrow> vec3 list \<Rightarrow> vec3 list" where
  "extremePoints ps [] = []"
| "extremePoints ps (q # qs) =
     (if inHull (removeAll q ps) q then extremePoints ps qs else q # extremePoints ps qs)"

definition hullVertices :: "vec3 list \<Rightarrow> vec3 list" where
  "hullVertices ps = extremePoints ps ps"

definition hull_addPoint :: "vec3 list \<Rightarrow> vec3 \<Rightarrow> vec3 list" where
  "hull_addPoint ps p = (if elemOf p ps then ps else hullVertices (ps @ [p]))"

definition hull_faces :: "vec3 list \<Rightarrow> hface list" where
  "hull_faces ps =
     (case classify ps of
        Polyhedron \<Rightarrow> facets ps
      | Polygon \<Rightarrow> [\<lparr>fnormal = planeNormal ps, fanchor = hd ps, fvertices = ps\<rparr>]
      | _ \<Rightarrow> [])"

fun vmin :: "vec3 \<Rightarrow> vec3 \<Rightarrow> vec3" where
  "vmin (a, b, c) (x, y, z) = (min a x, min b y, min c z)"

fun vmax :: "vec3 \<Rightarrow> vec3 \<Rightarrow> vec3" where
  "vmax (a, b, c) (x, y, z) = (max a x, max b y, max c z)"

definition hull_bounds :: "vec3 list \<Rightarrow> bbox3" where
  "hull_bounds ps =
     (case ps of
        [] \<Rightarrow> \<lparr>bmin = zero3, bmax = zero3\<rparr>
      | p # qs \<Rightarrow> \<lparr>bmin = foldl vmin p qs, bmax = foldl vmax p qs\<rparr>)"

text \<open>
  The status of a point with respect to the plane of a face: above on the side the
  outward normal points to, below on the other side, inside within the tolerance. The
  comparison of the distance with the tolerance is made on the squares, the normal not
  being a unit vector.
\<close>

definition point_status_epsilon :: FloatType where
  "point_status_epsilon = 1 / 10000"

definition hull_pointStatus :: "hface \<Rightarrow> vec3 \<Rightarrow> plane_status" where
  "hull_pointStatus f p =
     (let d = dot (fnormal f) (vsub p (fanchor f));
          t = point_status_epsilon * point_status_epsilon * dot (fnormal f) (fnormal f)
      in if 0 < d \<and> t < d * d then above
         else if d < 0 \<and> t < d * d then below
         else inside)"

text \<open>
  The intersection of a ray with a face: the ray meets the plane of the face at a parameter
  that is not negative, in a point inside the polygon; it hits the front when it runs
  against the normal and the back when it runs along it.
\<close>

definition hull_intersectWithRay :: "hface \<Rightarrow> ray3 \<Rightarrow> side \<Rightarrow> FloatType option" where
  "hull_intersectWithRay f r s =
     (let c = dot (fnormal f) (direction r) in
      if c = 0 then None
      else
        let t = dot (fnormal f) (vsub (fanchor f) (origin r)) / c in
        if t < 0 then None
        else if \<not> insidePolygon (fnormal f) (fvertices f)
                    (vadd (origin r) (vscale t (direction r))) then None
        else if s = side_front \<and> 0 < c then None
        else if s = side_back \<and> c < 0 then None
        else Some t)"

definition hull_contains :: "vec3 list \<Rightarrow> hface list \<Rightarrow> vec3 \<Rightarrow> bool" where
  "hull_contains ps fs q =
     (case classify ps of
        Polyhedron \<Rightarrow> list_all (\<lambda>f. hull_pointStatus f q \<noteq> above) fs
      | Empty \<Rightarrow> False | Point \<Rightarrow> False | Edge \<Rightarrow> False | Polygon \<Rightarrow> False)"

text \<open>
  Two vertices span an edge of a full polyhedron when two faces meet in them; of a
  polygon, when they span a boundary line; of an edge, when they are its end points.
\<close>

definition facesShareEdge :: "hface list \<Rightarrow> vec3 \<times> vec3 \<Rightarrow> bool" where
  "facesShareEdge fs uv =
     (2 \<le> length (filter (\<lambda>f. elemOf (fst uv) (fvertices f) \<and>
                                elemOf (snd uv) (fvertices f)) fs))"

definition hull_hasEdge :: "vec3 list \<Rightarrow> hface list \<Rightarrow> vec3 \<Rightarrow> vec3 \<Rightarrow> bool" where
  "hull_hasEdge ps fs u v =
     (u \<noteq> v \<and> elemOf u ps \<and> elemOf v ps \<and>
      (case classify ps of
         Polyhedron \<Rightarrow> facesShareEdge fs (u, v)
       | Polygon \<Rightarrow>
           list_all (leftOf (planeNormal ps) u v) ps \<or> list_all (leftOf (planeNormal ps) v u) ps
       | _ \<Rightarrow> True))"

definition hull_hasFace :: "hface list \<Rightarrow> vec3 list \<Rightarrow> bool" where
  "hull_hasFace fs vs = list_ex (\<lambda>f. sameElements (fvertices f) vs) fs"

definition dist2 :: "vec3 \<Rightarrow> vec3 \<Rightarrow> FloatType" where
  "dist2 p q = dot (vsub p q) (vsub p q)"

text \<open>
  The closest vertex within a maximal distance: a vertex replaces the best one so far when
  it is strictly closer. Distances are compared by their squares.
\<close>

fun closestVertex :: "vec3 \<Rightarrow> FloatType \<Rightarrow> vec3 option \<Rightarrow> vec3 list \<Rightarrow> vec3 option" where
  "closestVertex p closest2 best [] = best"
| "closestVertex p closest2 best (v # vs) =
     (if dist2 p v < closest2 then closestVertex p (dist2 p v) (Some v) vs
      else closestVertex p closest2 best vs)"

definition hull_findClosestVertex :: "vec3 list \<Rightarrow> vec3 \<Rightarrow> FloatType \<Rightarrow> vec3 option" where
  "hull_findClosestVertex ps p maxDistance =
     closestVertex p (maxDistance * maxDistance) None ps"

subsection \<open>Faces with texture attributes, payloads and matrices\<close>

text \<open>
  A brush face of the concrete kernel: three points of its plane, wound so that
  \<open>normal3\<close> is the outward normal, and attributes that keep a texture name and an offset.
\<close>

record battr =
  textureName :: string
  xOffset :: FloatType
  yOffset :: FloatType

record bface =
  bf_points :: "vec3 \<times> vec3 \<times> vec3"
  bf_attribs :: battr

definition bface_boundary :: "bface \<Rightarrow> plane3" where
  "bface_boundary face =
     (case bf_points face of (p0, p1, p2) \<Rightarrow>
        \<lparr>normal = hull_normalize (normal3 p0 p1 p2),
         distance = dot (hull_normalize (normal3 p0 p1 p2)) p0\<rparr>)"

text \<open>
  A matrix is an affine map, given by the rows of its linear part, its translation and the
  last entry of its fourth row (the other entries of that row are zero), or the matrix with
  NaN entries that the solver returns for a singular system, where it divides zero by zero.
\<close>

datatype hmat = NaNMatrix | Affine "vec3 \<times> vec3 \<times> vec3" vec3 entry

fun hull_entries :: "hmat \<Rightarrow> entry list" where
  "hull_entries NaNMatrix =
     [NaN, NaN, NaN, NaN, NaN, NaN, NaN, NaN, NaN, NaN, NaN, NaN, NaN, NaN, NaN, NaN]"
| "hull_entries (Affine ((a, b, c), (d, e, f), (g, h, i)) (x, y, z) w) =
     [Number a, Number b, Number c, Number x, Number d, Number e, Number f, Number y,
      Number g, Number h, Number i, Number z, Number 0, Number 0, Number 0, w]"

definition identityMatrix :: hmat where
  "identityMatrix = Affine ((1, 0, 0), (0, 1, 0), (0, 0, 1)) zero3 (Number 1)"

fun mapply :: "vec3 \<times> vec3 \<times> vec3 \<Rightarrow> vec3 \<Rightarrow> vec3 \<Rightarrow> vec3" where
  "mapply (r1, r2, r3) t p = vadd (dot r1 p, dot r2 p, dot r3 p) t"

text \<open>
  The affine map that takes three points and the normal of their plane to three other
  points and the normal of theirs: the matrix of the images times the inverse of the matrix
  of the originals; NaN when the originals are collinear.
\<close>

definition hull_points_transformation_matrix ::
  "vec3 \<Rightarrow> vec3 \<Rightarrow> vec3 \<Rightarrow> vec3 \<Rightarrow> vec3 \<Rightarrow> vec3 \<Rightarrow> hmat" where
  "hull_points_transformation_matrix p0 p1 p2 q0 q1 q2 =
     (let u1 = vsub p1 p0; u2 = vsub p2 p0; u3 = cross u1 u2;
          w1 = vsub q1 q0; w2 = vsub q2 q0; w3 = cross w1 w2;
          det = dot u1 (cross u2 u3)
      in if det = 0 then NaNMatrix
         else
           let i1 = vscale (1 / det) (cross u2 u3);
               i2 = vscale (1 / det) (cross u3 u1);
               i3 = vscale (1 / det) (cross u1 u2);
               row = (\<lambda>sel. vadd (vscale (sel w1) i1) (vadd (vscale (sel w2) i2) (vscale (sel w3) i3)));
               L = (row fst, row (\<lambda>w. fst (snd w)), row (\<lambda>w. snd (snd w)))
           in Affine L (vsub q0 (mapply L zero3 p0)) (Number 1))"

text \<open>
  Transforming a face maps its three points by the affine part of the matrix; it throws
  when the images are collinear. Under texture lock the offset follows the translation.
\<close>

definition bface_transform :: "hmat \<Rightarrow> bool \<Rightarrow> bface \<Rightarrow> string + bface" where
  "bface_transform M lockTexture face =
     (case M of
        NaNMatrix \<Rightarrow> Inl ''Colinear face points''
      | Affine L t w \<Rightarrow>
          (case bf_points face of (p0, p1, p2) \<Rightarrow>
             if normal3 (mapply L t p0) (mapply L t p1) (mapply L t p2) = zero3
             then Inl ''Colinear face points''
             else Inr \<lparr>bf_points = (mapply L t p0, mapply L t p1, mapply L t p2),
                      bf_attribs =
                        (if lockTexture
                         then (bf_attribs face)
                                \<lparr>xOffset := xOffset (bf_attribs face) + fst t,
                                 yOffset := yOffset (bf_attribs face) + fst (snd t)\<rparr>
                         else bf_attribs face)\<rparr>))"

text \<open>
  A face bound to a geometry face takes three of its vertices, wound like the geometry
  face.
\<close>

definition bface_updatePointsFromVertices :: "hface \<Rightarrow> bface \<Rightarrow> bface" where
  "bface_updatePointsFromVertices f face =
     (case find (\<lambda>(a, b, c). 0 < dot (normal3 a b c) (fnormal f)) (triples (fvertices f)) of
        None \<Rightarrow> face
      | Some t \<Rightarrow> face\<lparr>bf_points := t\<rparr>)"

text \<open>
  A geometry: the points it was built from (all the points added, or the vertices left by
  a clip), the vertices of their hull, its faces, and the payloads of the faces. A face is
  identified by its plane, which stays the same when the face is cut. The degeneracy class
  of the geometry is the class of the points it was built from, which is the class of
  their hull.
\<close>

record hgeom =
  hspan :: "vec3 list"
  hpoints :: "vec3 list"
  hfaces :: "hface list"
  hpayloads :: "((vec3 \<times> FloatType) \<times> bface) list"

definition withPoints :: "hgeom \<Rightarrow> vec3 \<Rightarrow> vec3 list \<Rightarrow> hgeom" where
  "withPoints g p ps = g\<lparr>hspan := hspan g @ [p], hpoints := ps, hfaces := hull_faces ps\<rparr>"

definition planeKey :: "hface \<Rightarrow> vec3 \<times> FloatType" where
  "planeKey f = (hull_normalize (fnormal f), dot (hull_normalize (fnormal f)) (fanchor f))"

definition hull_payload :: "hgeom \<Rightarrow> hface \<Rightarrow> bface option" where
  "hull_payload g f = map_of (hpayloads g) (planeKey f)"

definition hull_setPayload :: "hgeom \<Rightarrow> hface \<Rightarrow> bface option \<Rightarrow> hgeom" where
  "hull_setPayload g f p =
     g\<lparr>hpayloads :=
         (case p of None \<Rightarrow> [] | Some face \<Rightarrow> [(planeKey f, face)]) @
         filter (\<lambda>kv. fst kv \<noteq> planeKey f) (hpayloads g)\<rparr>"

subsection \<open>Clipping\<close>

text \<open>
  Clipping a full polyhedron by the half-space below a plane. Nothing changes when no
  vertex is above the plane; nothing is left when no vertex is below it. Otherwise the
  vertices above the plane go, and every edge from a vertex below to a vertex above is cut
  where it meets the plane; a face without a vertex below the plane is deleted, every other
  face keeps the points of the result that lie in its plane, and the face in the clipping
  plane is created. The points come with their signed distances from the plane.
\<close>

definition planeSide :: "plane3 \<Rightarrow> vec3 \<Rightarrow> FloatType" where
  "planeSide pl p = dot (normal pl) p - distance pl"

definition cutPoint :: "(vec3 \<times> FloatType) \<times> (vec3 \<times> FloatType) \<Rightarrow> vec3" where
  "cutPoint uv =
     (case uv of ((u, su), (v, sv)) \<Rightarrow> vadd u (vscale (su / (su - sv)) (vsub v u)))"

definition clippedPoints :: "hface list \<Rightarrow> (vec3 \<times> FloatType) list \<Rightarrow> vec3 list" where
  "clippedPoints fs sides =
     remdups
       (map fst (filter (\<lambda>ps. snd ps \<le> 0) sides) @
        map cutPoint
          (filter (\<lambda>uv. facesShareEdge fs (fst (fst uv), fst (snd uv)))
             (concat (map (\<lambda>u. map (\<lambda>v. (u, v)) (filter (\<lambda>ps. 0 < snd ps) sides))
                        (filter (\<lambda>ps. snd ps < 0) sides)))))"

definition onFace :: "hface \<Rightarrow> vec3 \<Rightarrow> bool" where
  "onFace f p = (dot (fnormal f) (vsub p (fanchor f)) = 0)"

definition survives :: "(vec3 \<times> FloatType) list \<Rightarrow> hface \<Rightarrow> bool" where
  "survives sides f = list_ex (\<lambda>ps. snd ps < 0 \<and> elemOf (fst ps) (fvertices f)) sides"

definition createdFaces :: "plane3 \<Rightarrow> vec3 list \<Rightarrow> hface list" where
  "createdFaces pl vs =
     (if classify vs = Polygon then [\<lparr>fnormal = normal pl, fanchor = hd vs, fvertices = vs\<rparr>]
      else [])"

definition clipTo ::
  "hgeom \<Rightarrow> (vec3 \<times> FloatType) list \<Rightarrow> hface list \<Rightarrow> vec3 list \<Rightarrow>
     hgeom \<times> hface callback_event list \<times> bool" where
  "clipTo g sides created newPoints =
     (g\<lparr>hspan := newPoints, hpoints := newPoints,
        hfaces :=
          map (\<lambda>f. f\<lparr>fvertices := filter (onFace f) newPoints\<rparr>)
            (filter (survives sides) (hfaces g)) @ created\<rparr>,
      map FaceWillBeDeleted (filter (\<lambda>f. \<not> survives sides f) (hfaces g)) @
      map FaceWasCreated created,
      False)"

definition clipWith ::
  "hgeom \<Rightarrow> plane3 \<Rightarrow> (vec3 \<times> FloatType) list \<Rightarrow> hgeom \<times> hface callback_event list \<times> bool"
  where
  "clipWith g pl sides =
     (if list_all (\<lambda>ps. snd ps \<le> 0) sides then (g, [], False)
      else if list_all (\<lambda>ps. 0 \<le> snd ps) sides
        then (g\<lparr>hspan := [], hpoints := [], hfaces := []\<rparr>, map FaceWillBeDeleted (hfaces g), True)
      else clipTo g sides
             (createdFaces pl
                (filter (\<lambda>p. planeSide pl p = 0) (clippedPoints (hfaces g) sides)))
             (clippedPoints (hfaces g) sides))"

definition hull_clip :: "hgeom \<Rightarrow> plane3 \<Rightarrow> hgeom \<times> hface callback_event list \<times> bool" where
  "hull_clip g pl = clipWith g pl (map (\<lambda>p. (p, planeSide pl p)) (hpoints g))"

text \<open>The geometry of a box: its eight corners and six faces.\<close>

definition boxGeometry :: "bbox3 \<Rightarrow> hgeom" where
  "boxGeometry b =
     (case (bmin b, bmax b) of ((x0, y0, z0), (x1, y1, z1)) \<Rightarrow>
        \<lparr>hspan =
           [(x0, y0, z0), (x0, y0, z1), (x0, y1, z0), (x0, y1, z1),
            (x1, y0, z0), (x1, y0, z1), (x1, y1, z0), (x1, y1, z1)],
         hpoints =
           [(x0, y0, z0), (x0, y0, z1), (x0, y1, z0), (x0, y1, z1),
            (x1, y0, z0), (x1, y0, z1), (x1, y1, z0), (x1, y1, z1)],
         hfaces =
           [\<lparr>fnormal = (- 1, 0, 0), fanchor = (x0, y0, z0),
             fvertices = [(x0, y0, z0), (x0, y0, z1), (x0, y1, z0), (x0, y1, z1)]\<rparr>,
            \<lparr>fnormal = (1, 0, 0), fanchor = (x1, y0, z0),
             fvertices = [(x1, y0, z0), (x1, y0, z1), (x1, y1, z0), (x1, y1, z1)]\<rparr>,
            \<lparr>fnormal = (0, - 1, 0), fanchor = (x0, y0, z0),
             fvertices = [(x0, y0, z0), (x0, y0, z1), (x1, y0, z0), (x1, y0, z1)]\<rparr>,
            \<lparr>fnormal = (0, 1, 0), fanchor = (x0, y1, z0),
             fvertices = [(x0, y1, z0), (x0, y1, z1), (x1, y1, z0), (x1, y1, z1)]\<rparr>,
            \<lparr>fnormal = (0, 0, - 1), fanchor = (x0, y0, z0),
             fvertices = [(x0, y0, z0), (x0, y1, z0), (x1, y0, z0), (x1, y1, z0)]\<rparr>,
            \<lparr>fnormal = (0, 0, 1), fanchor = (x0, y0, z1),
             fvertices = [(x0, y0, z1), (x0, y1, z1), (x1, y0, z1), (x1, y1, z1)]\<rparr>],
         hpayloads = []\<rparr>)"

subsection \<open>Matching\<close>

text \<open>
  A vertex of the old geometry corresponds to a vertex of the new one when the positions
  are the same or the vertex map relates them; a new face is matched with the old face
  that has the most corresponding vertices, the first of them when there are several.
\<close>

definition vertexRelated :: "(vec3 \<times> vec3) list option \<Rightarrow> vec3 \<times> vec3 \<Rightarrow> bool" where
  "vertexRelated vertexMap lr =
     (fst lr = snd lr \<or> (case vertexMap of None \<Rightarrow> False | Some m \<Rightarrow> elemOf lr m))"

definition hull_matchingVertexPairs ::
  "hgeom matcher \<Rightarrow> hface \<Rightarrow> hface \<Rightarrow> (vec3 \<times> vec3) list" where
  "hull_matchingVertexPairs matcher0 left right =
     filter (vertexRelated (matcher_vertexMap matcher0))
       (concat (map (\<lambda>l. map (\<lambda>r. (l, r)) (fvertices right)) (fvertices left)))"

fun bestMatch ::
  "hgeom matcher \<Rightarrow> hface \<Rightarrow> hface option \<Rightarrow> hface list \<Rightarrow> hface option" where
  "bestMatch matcher0 right best [] = best"
| "bestMatch matcher0 right best (left # rest) =
     (case best of
        None \<Rightarrow> bestMatch matcher0 right (Some left) rest
      | Some b \<Rightarrow>
          if length (hull_matchingVertexPairs matcher0 b right) <
             length (hull_matchingVertexPairs matcher0 left right)
          then bestMatch matcher0 right (Some left) rest
          else bestMatch matcher0 right best rest)"

definition matchFacesWith ::
  "hface list \<Rightarrow> hgeom matcher \<Rightarrow> hface list \<Rightarrow> (hface \<times> hface) list" where
  "matchFacesWith lefts matcher0 rights =
     concat (map (\<lambda>right. case bestMatch matcher0 right None lefts of
                            None \<Rightarrow> []
                          | Some left \<Rightarrow> [(left, right)]) rights)"

definition hull_matchedFaces :: "hgeom matcher \<Rightarrow> (hface \<times> hface) list" where
  "hull_matchedFaces matcher0 =
     matchFacesWith (hfaces (matcher_left matcher0)) matcher0
       (hfaces (matcher_right matcher0))"

subsection \<open>The kernel\<close>

definition hg_empty :: hgeom where
  "hg_empty = \<lparr>hspan = [], hpoints = [], hfaces = [], hpayloads = []\<rparr>"

definition hg_addPoint :: "hgeom \<Rightarrow> vec3 \<Rightarrow> hgeom" where
  "hg_addPoint g p = withPoints g p (hull_addPoint (hpoints g) p)"

definition hg_bounds :: "hgeom \<Rightarrow> bbox3" where
  "hg_bounds g = hull_bounds (hpoints g)"

definition hg_hasVertex :: "hgeom \<Rightarrow> vec3 \<Rightarrow> bool" where
  "hg_hasVertex g p = elemOf p (hpoints g)"

definition hg_hasEdge :: "hgeom \<Rightarrow> vec3 \<Rightarrow> vec3 \<Rightarrow> bool" where
  "hg_hasEdge g = hull_hasEdge (hpoints g) (hfaces g)"

definition hg_hasFace :: "hgeom \<Rightarrow> vec3 list \<Rightarrow> bool" where
  "hg_hasFace g = hull_hasFace (hfaces g)"

definition hg_contains :: "hgeom \<Rightarrow> vec3 \<Rightarrow> bool" where
  "hg_contains g = hull_contains (hpoints g) (hfaces g)"

definition hg_class :: "degeneracy \<Rightarrow> hgeom \<Rightarrow> bool" where
  "hg_class c g = (classify (hspan g) = c)"

definition hg_findClosestVertex :: "hgeom \<Rightarrow> vec3 \<Rightarrow> FloatType \<Rightarrow> vec3 option" where
  "hg_findClosestVertex g = hull_findClosestVertex (hpoints g)"

definition hullKernel :: "(hgeom, hface) kernel" where
  "hullKernel =
     \<lparr>emptyGeometry = hg_empty,
      addPoint = hg_addPoint,
      bounds = hg_bounds,
      vertexPositions = hpoints,
      faces = hfaces,
      hasVertex = hg_hasVertex,
      hasEdge = hg_hasEdge,
      hasFace = hg_hasFace,
      contains = hg_contains,
      point = hg_class Point,
      edge = hg_class Edge,
      polygon = hg_class Polygon,
      polyhedron = hg_class Polyhedron,
      pointStatus = hull_pointStatus,
      intersectWithRay = hull_intersectWithRay,
      findClosestVertex = hg_findClosestVertex,
      normalize = hull_normalize,
      almost_zero = 1 / 1000\<rparr>"

definition hg_id :: "hgeom \<Rightarrow> hgeom" where
  "hg_id g = g"

text \<open>
  Healing the edges: an edge shorter than the minimal length is removed by dropping the
  later of its two vertices. The healing succeeds when a full polyhedron is left.
\<close>

definition minEdgeLength :: FloatType where
  "minEdgeLength = 1 / 10"

fun keepApart :: "vec3 list \<Rightarrow> vec3 list \<Rightarrow> vec3 list" where
  "keepApart kept [] = kept"
| "keepApart kept (v # vs) =
     (if list_ex (\<lambda>u. dist2 u v < minEdgeLength * minEdgeLength) kept then keepApart kept vs
      else keepApart (kept @ [v]) vs)"

definition hg_healEdges :: "hgeom \<Rightarrow> hgeom \<times> bool" where
  "hg_healEdges g =
     (if length (keepApart [] (hpoints g)) = length (hpoints g)
      then (g, classify (hspan g) = Polyhedron)
      else (g\<lparr>hspan := keepApart [] (hpoints g), hpoints := keepApart [] (hpoints g),
              hfaces := hull_faces (keepApart [] (hpoints g))\<rparr>,
            classify (keepApart [] (hpoints g)) = Polyhedron))"

definition bface_id :: "bface \<Rightarrow> bface" where
  "bface_id face = face"

definition bface_setAttributes :: "battr \<Rightarrow> bface \<Rightarrow> bface" where
  "bface_setAttributes a face = face\<lparr>bf_attribs := a\<rparr>"

definition bface_snapshot :: "bface \<Rightarrow> battr option" where
  "bface_snapshot face = Some (bf_attribs face)"

definition bface_copyTexCoordSystem ::
  "battr \<Rightarrow> battr \<Rightarrow> plane3 \<Rightarrow> WrapStyle \<Rightarrow> bface \<Rightarrow> bface" where
  "bface_copyTexCoordSystem snapshot a pl w face = face\<lparr>bf_attribs := snapshot\<rparr>"

definition bface_sortFaces :: "bface list \<Rightarrow> bface list" where
  "bface_sortFaces fs = fs"

definition hull_translation_matrix :: "vec3 \<Rightarrow> hmat" where
  "hull_translation_matrix t = Affine ((1, 0, 0), (0, 1, 0), (0, 0, 1)) t (Number 1)"

definition hullBuilder :: "(hgeom, hface, bface, hmat, battr, battr) builder" where
  "hullBuilder =
     \<lparr>boundsGeometry = boxGeometry,
      clip = hull_clip,
      correctVertexPositions = hg_id,
      healEdges = hg_healEdges,
      payload = hull_payload,
      setPayload = hull_setPayload,
      matchedFaces = hull_matchedFaces,
      matchingVertexPairs = hull_matchingVertexPairs,
      clone = bface_id,
      boundary = bface_boundary,
      transform = bface_transform,
      attributes = bf_attribs,
      setAttributes = bface_setAttributes,
      takeTexCoordSystemSnapshot = bface_snapshot,
      copyTexCoordSystemFromFace = bface_copyTexCoordSystem,
      resetTexCoordSystemCache = bface_id,
      updatePointsFromVertices = bface_updatePointsFromVertices,
      sortFaces = bface_sortFaces,
      translation_matrix = hull_translation_matrix,
      points_transformation_matrix = hull_points_transformation_matrix,
      entries = hull_entries,
      mat4x4 = identityMatrix\<rparr>"



subsection \<open>Concrete brushes\<close>

definition world :: bbox3 where
  "world = \<lparr>bmin = (- 8, - 8, - 8), bmax = (8, 8, 8)\<rparr>"

text \<open>
  A triangular bipyramid: the triangle \<open>(0, 0, 0)\<close>, \<open>(4, 0, 0)\<close>, \<open>(0, 4, 0)\<close> with an
  apex below it at \<open>(1, 1, - 4)\<close> and an apex above it at \<open>(1, 1, 3)\<close>; and the tetrahedron
  that is left without the upper apex.
\<close>

definition hullOf :: "vec3 list \<Rightarrow> hgeom" where
  "hullOf ps = foldl (addPoint hullKernel) (emptyGeometry hullKernel) ps"

definition bipyramid :: hgeom where
  "bipyramid = hullOf [(0, 0, 0), (4, 0, 0), (0, 4, 0), (1, 1, - 4), (1, 1, 3)]"

definition tetrahedron :: hgeom where
  "tetrahedron = hullOf [(0, 0, 0), (4, 0, 0), (0, 4, 0), (1, 1, - 4)]"

text \<open>
  The faces of the cube from \<open>(0, 0, 0)\<close> to \<open>(4, 4, 4)\<close>, all with the same texture, and the
  brush built from them.
\<close>

definition plainFace :: "vec3 \<Rightarrow> vec3 \<Rightarrow> vec3 \<Rightarrow> bface" where
  "plainFace p0 p1 p2 =
     \<lparr>bf_points = (p0, p1, p2),
      bf_attribs = \<lparr>textureName = ''stone'', xOffset = 0, yOffset = 0\<rparr>\<rparr>"

definition cubeFaces :: "bface list" where
  "cubeFaces =
     [plainFace (0, 0, 0) (0, 0, 4) (0, 4, 0), plainFace (4, 0, 0) (4, 4, 0) (4, 0, 4),
      plainFace (0, 0, 0) (4, 0, 0) (0, 0, 4), plainFace (0, 4, 0) (0, 4, 4) (4, 4, 0),
      plainFace (0, 0, 0) (0, 4, 0) (4, 0, 0), plainFace (0, 0, 4) (4, 0, 4) (0, 4, 4)]"

definition cubeBrush :: "(bface, hgeom) brush" where
  "cubeBrush =
     snd (buildGeometry hullKernel hullBuilder world
            \<lparr>m_faces = cubeFaces, m_geometry = None, m_transparent = False\<rparr>)"

text \<open>The brush of the triangular bipyramid, built from its six faces.\<close>

definition bipyramidFaces :: "bface list" where
  "bipyramidFaces =
     [plainFace (0, 0, 0) (1, 1, - 4) (4, 0, 0), plainFace (0, 0, 0) (4, 0, 0) (1, 1, 3),
      plainFace (0, 0, 0) (0, 4, 0) (1, 1, - 4), plainFace (0, 0, 0) (1, 1, 3) (0, 4, 0),
      plainFace (4, 0, 0) (1, 1, - 4) (0, 4, 0), plainFace (4, 0, 0) (0, 4, 0) (1, 1, 3)]"

definition bipyramidBrush :: "(bface, hgeom) brush" where
  "bipyramidBrush =
     snd (buildGeometry hullKernel hullBuilder world
            \<lparr>m_faces = bipyramidFaces, m_geometry = None, m_transparent = False\<rparr>)"

text \<open>
  Face lists that do not build: the cube without its top face, which leaves the top of the
  initial box in place; the cube with a seventh face above it, which cuts nothing; the cube
  after a face below it, with which the bottom face of the cube leaves nothing; and a slab
  of the cube thinner than the minimal edge length.
\<close>

definition openFaces :: "bface list" where
  "openFaces =
     [plainFace (0, 0, 0) (0, 0, 4) (0, 4, 0), plainFace (4, 0, 0) (4, 4, 0) (4, 0, 4),
      plainFace (0, 0, 0) (4, 0, 0) (0, 0, 4), plainFace (0, 4, 0) (0, 4, 4) (4, 4, 0),
      plainFace (0, 0, 0) (0, 4, 0) (4, 0, 0)]"

definition redundantFace :: bface where
  "redundantFace = plainFace (0, 0, 6) (4, 0, 6) (0, 4, 6)"

definition redundantFaces :: "bface list" where
  "redundantFaces = cubeFaces @ [redundantFace]"

definition emptyingFaces :: "bface list" where
  "emptyingFaces = plainFace (0, 0, - 1) (4, 0, - 1) (0, 4, - 1) # cubeFaces"

definition slabFaces :: "bface list" where
  "slabFaces = openFaces @ [plainFace (0, 0, 1 / 100) (4, 0, 1 / 100) (0, 4, 1 / 100)]"

definition unbuilt :: "bface list \<Rightarrow> (bface, hgeom) brush" where
  "unbuilt fs = \<lparr>m_faces = fs, m_geometry = None, m_transparent = False\<rparr>"













section \<open>Properties of the vertex-move feasibility check\<close>

lemma success_rejectVertexMove: "success (rejectVertexMove K) = False"
  by (simp add: rejectVertexMove_def)

lemma success_acceptVertexMove: "success (acceptVertexMove r) = True"
  by (simp add: acceptVertexMove_def)

lemma foldl_addFragmentVertex_result:
  "snd (snd (foldl (addFragmentVertex K V delta) (r, m, res) ps)) =
   foldl (addPoint K) res (map (movedPosition V delta) ps)"
  by (induction ps arbitrary: r m res)
     (simp_all add: addFragmentVertex_def movedPosition_def)

text \<open>
  The third fragment is the geometry built from the brush's vertices in order, each moving
  vertex displaced by \<open>delta\<close> and each other vertex left where it is.
\<close>

lemma fragments_result:
  "snd (snd (fragments K g V delta)) =
   foldl (addPoint K) (emptyGeometry K) (map (movedPosition V delta) (vertexPositions K g))"
  by (simp add: fragments_def foldl_addFragmentVertex_result)

lemma is_zero_zero: "0 \<le> epsilon \<Longrightarrow> is_zero (0, 0, 0) epsilon"
  by simp

section \<open>Evaluating the concrete kernel\<close>

lemma hullKernel_sel:
  "emptyGeometry hullKernel = hg_empty"
  "addPoint hullKernel = hg_addPoint"
  "bounds hullKernel = hg_bounds"
  "vertexPositions hullKernel = hpoints"
  "faces hullKernel = hfaces"
  "hasVertex hullKernel = hg_hasVertex"
  "hasEdge hullKernel = hg_hasEdge"
  "hasFace hullKernel = hg_hasFace"
  "contains hullKernel = hg_contains"
  "point hullKernel = hg_class Point"
  "edge hullKernel = hg_class Edge"
  "polygon hullKernel = hg_class Polygon"
  "polyhedron hullKernel = hg_class Polyhedron"
  "pointStatus hullKernel = hull_pointStatus"
  "intersectWithRay hullKernel = hull_intersectWithRay"
  "findClosestVertex hullKernel = hg_findClosestVertex"
  "normalize hullKernel = hull_normalize"
  "almost_zero hullKernel = 1 / 1000"
  by (simp_all add: hullKernel_def)

lemma hullBuilder_sel:
  "boundsGeometry hullBuilder = boxGeometry"
  "clip hullBuilder = hull_clip"
  "correctVertexPositions hullBuilder = hg_id"
  "healEdges hullBuilder = hg_healEdges"
  "payload hullBuilder = hull_payload"
  "setPayload hullBuilder = hull_setPayload"
  "matchedFaces hullBuilder = hull_matchedFaces"
  "matchingVertexPairs hullBuilder = hull_matchingVertexPairs"
  "clone hullBuilder = bface_id"
  "boundary hullBuilder = bface_boundary"
  "transform hullBuilder = bface_transform"
  "attributes hullBuilder = bf_attribs"
  "setAttributes hullBuilder = bface_setAttributes"
  "takeTexCoordSystemSnapshot hullBuilder = bface_snapshot"
  "copyTexCoordSystemFromFace hullBuilder = bface_copyTexCoordSystem"
  "resetTexCoordSystemCache hullBuilder = bface_id"
  "updatePointsFromVertices hullBuilder = bface_updatePointsFromVertices"
  "sortFaces hullBuilder = bface_sortFaces"
  "translation_matrix hullBuilder = hull_translation_matrix"
  "points_transformation_matrix hullBuilder = hull_points_transformation_matrix"
  "entries hullBuilder = hull_entries"
  "mat4x4 hullBuilder = identityMatrix"
  by (simp_all add: hullBuilder_def)



text \<open>
  Rules that evaluate the concrete kernel; the functions on geometries apply to a geometry
  that is written out only.
\<close>

lemma hg_eval:
  "hg_addPoint \<lparr>hspan = sp, hpoints = ps, hfaces = fs, hpayloads = pl\<rparr> p =
     withPoints \<lparr>hspan = sp, hpoints = ps, hfaces = fs, hpayloads = pl\<rparr> p (hull_addPoint ps p)"
  "hg_bounds \<lparr>hspan = sp, hpoints = ps, hfaces = fs, hpayloads = pl\<rparr> = hull_bounds ps"
  "hg_hasVertex \<lparr>hspan = sp, hpoints = ps, hfaces = fs, hpayloads = pl\<rparr> p = elemOf p ps"
  "hg_hasEdge \<lparr>hspan = sp, hpoints = ps, hfaces = fs, hpayloads = pl\<rparr> = hull_hasEdge ps fs"
  "hg_hasFace \<lparr>hspan = sp, hpoints = ps, hfaces = fs, hpayloads = pl\<rparr> = hull_hasFace fs"
  "hg_contains \<lparr>hspan = sp, hpoints = ps, hfaces = fs, hpayloads = pl\<rparr> = hull_contains ps fs"
  "hg_class c \<lparr>hspan = sp, hpoints = ps, hfaces = fs, hpayloads = pl\<rparr> = (classify sp = c)"
  "hg_findClosestVertex \<lparr>hspan = sp, hpoints = ps, hfaces = fs, hpayloads = pl\<rparr> =
     hull_findClosestVertex ps"
  "withPoints \<lparr>hspan = sp, hpoints = ps, hfaces = fs, hpayloads = pl\<rparr> p qs =
     \<lparr>hspan = sp @ [p], hpoints = qs, hfaces = hull_faces qs, hpayloads = pl\<rparr>"
  by (simp_all add: hg_addPoint_def hg_bounds_def hg_hasVertex_def hg_hasEdge_def
      hg_hasFace_def hg_contains_def hg_class_def hg_findClosestVertex_def withPoints_def)

lemmas hull_geometry_eval =
  hullKernel_sel hg_eval hg_empty_def hull_addPoint_def hullVertices_def inHull_def
  classify_def planeNormal_def normal3_def zero3_def supporting_def pairs_def mkFace_def
  facets_def hull_faces_def leftOf_def boundaryLine_def insidePolygon_def hull_bounds_def
  hull_pointStatus_def point_status_epsilon_def hull_intersectWithRay_def
  hull_contains_def facesShareEdge_def hull_hasEdge_def hull_hasFace_def dist2_def
  hull_findClosestVertex_def hull_normalize_def sameElements_def

lemmas hull_builder_eval =
  hullBuilder_sel bface_boundary_def identityMatrix_def hull_points_transformation_matrix_def
  mat_equal_def bface_transform_def bface_updatePointsFromVertices_def planeKey_def
  hull_payload_def hull_setPayload_def planeSide_def cutPoint_def clippedPoints_def
  onFace_def survives_def createdFaces_def clipTo_def clipWith_def hull_clip_def
  boxGeometry_def vertexRelated_def hull_matchingVertexPairs_def matchFacesWith_def
  hull_matchedFaces_def bbox_expand_def hg_id_def hg_healEdges_def bface_id_def
  bface_setAttributes_def bface_snapshot_def bface_copyTexCoordSystem_def
  bface_sortFaces_def hull_translation_matrix_def minEdgeLength_def

lemmas brush_build_eval =
  addFacesToGeometry_def fullySpecified_def updateFaceFromGeometry_def
  updateFacesFromGeometry_def buildGeometry_def deleteGeometry_def rebuildGeometry_def

lemmas move_eval =
  doCanMoveVertices_def fragments_def addFragmentVertex_def vertexCount_def
  travelsThrough_def travelsThroughFace_def invertIfNecessary_def rejectVertexMove_def
  acceptVertexMove_def bbox_contains_def world_def reachesCheck_def sweepMoving_def
  sweepRemaining_def sweepDelta_def canMoveVertices_def movedPosition_def



lemmas faces_eval =
  unbuilt_def openFaces_def redundantFace_def redundantFaces_def emptyingFaces_def
  slabFaces_def cubeFaces_def plainFace_def world_def

section \<open>Theorems about the vertex-move feasibility check\<close>

lemma doCanMoveVertices_rejects:
  assumes "V = [] \<or> is_zero delta (almost_zero K) \<or>
           \<not> bbox_contains worldBounds (bounds K (snd (snd (fragments K g V delta))))"
  shows "\<not> success (doCanMoveVertices K worldBounds g V delta allow)"
  using assms
  by (auto simp add: doCanMoveVertices_def success_rejectVertexMove split: prod.splits)

text \<open>
  C2. \<open>canMoveVertices(worldBounds, V, delta)\<close> is false whenever \<open>delta\<close> is the zero vector,
  or \<open>V\<close> is empty, or the bounds of the result geometry (every vertex of the brush added in
  order, the moving ones displaced by \<open>delta\<close>) are not contained in \<open>worldBounds\<close>. The
  tolerance \<open>almost_zero\<close> of the kernel is assumed not to be negative.
\<close>

theorem canMoveVertices_false:
  assumes "0 \<le> almost_zero K"
    and "delta = (0, 0, 0) \<or> V = [] \<or>
         \<not> bbox_contains worldBounds
             (bounds K (foldl (addPoint K) (emptyGeometry K)
                          (map (movedPosition V delta) (vertexPositions K g))))"
  shows "\<not> canMoveVertices K worldBounds g V delta"
proof -
  from assms have "V = [] \<or> is_zero delta (almost_zero K) \<or>
      \<not> bbox_contains worldBounds (bounds K (snd (snd (fragments K g V delta))))"
    by (auto simp add: fragments_result)
  then show ?thesis
    unfolding canMoveVertices_def by (rule doCanMoveVertices_rejects)
qed

lemma sweep_decides:
  assumes "reachesCheck K worldBounds g V delta allow"
  shows "success (doCanMoveVertices K worldBounds g V delta allow) =
         (\<not> travelsThrough K (sweepMoving K g V delta) (sweepRemaining K g V delta)
              (sweepDelta K g V delta))"
proof -
  obtain remaining moving result where f: "fragments K g V delta = (remaining, moving, result)"
    by (cases "fragments K g V delta") auto
  obtain r' m' d' where i: "invertIfNecessary K (remaining, moving, delta) = (r', m', d')"
    by (cases "invertIfNecessary K (remaining, moving, delta)") auto
  from assms f have gates:
    "V \<noteq> []" "\<not> is_zero delta (almost_zero K)"
    "bbox_contains worldBounds (bounds K result)"
    "vertexCount K moving \<noteq> vertexCount K g"
    "allow \<or> list_all (\<lambda>movingVertex. hasVertex K result (vadd movingVertex delta))
                (vertexPositions K moving)"
    "polyhedron K result"
    "\<not> ((point K moving \<and> polygon K remaining) \<or> (edge K moving \<and> edge K remaining))"
    by (simp_all add: reachesCheck_def)
  have "success (doCanMoveVertices K worldBounds g V delta allow) = (\<not> travelsThrough K m' r' d')"
    using gates f i
    by (auto simp add: doCanMoveVertices_def success_rejectVertexMove success_acceptVertexMove)
  moreover have "sweepMoving K g V delta = m'" "sweepRemaining K g V delta = r'"
    "sweepDelta K g V delta = d'"
    using f i by (simp_all add: sweepMoving_def sweepRemaining_def sweepDelta_def)
  ultimately show ?thesis by simp
qed

lemma travelsThrough_iff:
  "travelsThrough K moving remaining delta =
   (\<exists>oldPos \<in> set (vertexPositions K moving). \<exists>face \<in> set (faces K remaining).
      pointStatus K face oldPos = below \<and> pointStatus K face (vadd oldPos delta) = above \<and>
      intersectWithRay K face
        \<lparr>origin = oldPos, direction = normalize K (vsub (vadd oldPos delta) oldPos)\<rparr>
        side_back \<noteq> None)"
  by (simp add: travelsThrough_def travelsThroughFace_def list_ex_iff Let_def)

text \<open>
  C1, as amended. A vertex move that reaches the sweep of \<open>doCanMoveVertices\<close> (no earlier
  return applies) is rejected if and only if, for the fragments and the delta left by the
  inversion step, some vertex of the moving fragment is below the plane of some face of
  the remaining fragment at its old position and above it at its new position (it
  leaves the half-space behind that face), and the ray from the old position along the
  move hits the back of that face; otherwise the move is accepted.
\<close>

theorem doCanMoveVertices_check:
  assumes "reachesCheck K worldBounds g V delta allow"
  shows "(\<not> success (doCanMoveVertices K worldBounds g V delta allow)) =
         (\<exists>oldPos \<in> set (vertexPositions K (sweepMoving K g V delta)).
          \<exists>face \<in> set (faces K (sweepRemaining K g V delta)).
            pointStatus K face oldPos = below \<and>
            pointStatus K face (vadd oldPos (sweepDelta K g V delta)) = above \<and>
            intersectWithRay K face
              \<lparr>origin = oldPos,
               direction = normalize K (vsub (vadd oldPos (sweepDelta K g V delta)) oldPos)\<rparr>
              side_back \<noteq> None)"
  by (simp only: sweep_decides [OF assms] travelsThrough_iff not_not)

lemma fragments_all_moving:
  assumes "set ps \<subseteq> set V"
  shows "foldl (addFragmentVertex K V delta) (r, m, res) ps =
         (r, foldl (addPoint K) m ps, foldl (addPoint K) res (map (\<lambda>p. vadd p delta) ps))"
  using assms by (induction ps arbitrary: m res) (simp_all add: addFragmentVertex_def)

text \<open>
  C3, as amended. When the delta is not zero within the tolerance, the brush has a vertex
  and every vertex of the brush is among the vertices to move, \<open>canMoveVertices\<close> accepts
  the move whenever the translated geometry stays within the world bounds. The kernel is
  assumed to rebuild a geometry with the same number of vertices from the vertices of the
  brush.
\<close>

theorem canMoveVertices_whole_brush:
  assumes "\<not> is_zero delta (almost_zero K)"
    and "vertexPositions K g \<noteq> []"
    and "set (vertexPositions K g) \<subseteq> set V"
    and "vertexCount K (foldl (addPoint K) (emptyGeometry K) (vertexPositions K g)) =
         vertexCount K g"
    and "bbox_contains worldBounds
           (bounds K (foldl (addPoint K) (emptyGeometry K)
                        (map (\<lambda>p. vadd p delta) (vertexPositions K g))))"
  shows "canMoveVertices K worldBounds g V delta"
proof -
  from assms(2,3) have "V \<noteq> []" by auto
  moreover have "fragments K g V delta =
      (emptyGeometry K, foldl (addPoint K) (emptyGeometry K) (vertexPositions K g),
       foldl (addPoint K) (emptyGeometry K) (map (\<lambda>p. vadd p delta) (vertexPositions K g)))"
    unfolding fragments_def by (rule fragments_all_moving [OF assms(3)])
  ultimately show ?thesis
    using assms(1,4,5)
    by (simp add: canMoveVertices_def doCanMoveVertices_def success_acceptVertexMove)
qed

section \<open>Theorems about edge and face moves\<close>

lemma allEdgesInResult_iff:
  "allEdgesInResult K geo delta es =
   (\<forall>e \<in> set es. hasEdge K geo (vadd (seg_start e) delta) (vadd (seg_end e) delta))"
  by (induction es) simp_all

lemma allFacesInResult_iff:
  "allFacesInResult K geo delta fs =
   (\<forall>face \<in> set fs. hasFace K geo (translateVertices face delta))"
  by (induction fs) simp_all

text \<open>
  C6. For a non-empty list of edges (of faces), \<open>canMoveEdges\<close> (\<open>canMoveFaces\<close>) returns
  true if and only if \<open>doCanMoveVertices\<close>, called without vertex removal on the list of the
  vertices of the edges (faces), succeeds and its result geometry has every given edge
  (face) displaced by \<open>delta\<close>. The vertices passed on are the union of the vertices of the
  edges (faces).
\<close>

theorem canMoveEdges_canMoveFaces:
  assumes "edgePositions \<noteq> []" and "facePositions \<noteq> []"
  shows
    "canMoveEdges K worldBounds (Some g) edgePositions delta =
       Inr (success (doCanMoveVertices K worldBounds g
                       (segment_get_vertices edgePositions) delta False) \<and>
            (\<forall>e \<in> set edgePositions.
               hasEdge K
                 (geometry (doCanMoveVertices K worldBounds g
                              (segment_get_vertices edgePositions) delta False))
                 (vadd (seg_start e) delta) (vadd (seg_end e) delta))) \<and>
     set (segment_get_vertices edgePositions) =
       (\<Union>e \<in> set edgePositions. {seg_start e, seg_end e}) \<and>
     canMoveFaces K worldBounds (Some g) facePositions delta =
       Inr (success (doCanMoveVertices K worldBounds g
                       (polygon_get_vertices facePositions) delta False) \<and>
            (\<forall>face \<in> set facePositions.
               hasFace K
                 (geometry (doCanMoveVertices K worldBounds g
                              (polygon_get_vertices facePositions) delta False))
                 (map (\<lambda>v. vadd v delta) face))) \<and>
     set (polygon_get_vertices facePositions) = (\<Union>face \<in> set facePositions. set face)"
proof -
  have e: "canMoveEdges K worldBounds (Some g) edgePositions delta =
       Inr (success (doCanMoveVertices K worldBounds g
                       (segment_get_vertices edgePositions) delta False) \<and>
            (\<forall>e \<in> set edgePositions.
               hasEdge K
                 (geometry (doCanMoveVertices K worldBounds g
                              (segment_get_vertices edgePositions) delta False))
                 (vadd (seg_start e) delta) (vadd (seg_end e) delta)))"
    using assms(1) by (simp add: canMoveEdges_def Let_def allEdgesInResult_iff)
  have f: "canMoveFaces K worldBounds (Some g) facePositions delta =
       Inr (success (doCanMoveVertices K worldBounds g
                       (polygon_get_vertices facePositions) delta False) \<and>
            (\<forall>face \<in> set facePositions.
               hasFace K
                 (geometry (doCanMoveVertices K worldBounds g
                              (polygon_get_vertices facePositions) delta False))
                 (map (\<lambda>v. vadd v delta) face)))"
    using assms(2)
    by (simp add: canMoveFaces_def Let_def allFacesInResult_iff translateVertices_def)
  have ve: "set (segment_get_vertices edgePositions) =
       (\<Union>e \<in> set edgePositions. {seg_start e, seg_end e})"
    by (auto simp add: segment_get_vertices_def)
  have vf: "set (polygon_get_vertices facePositions) = (\<Union>face \<in> set facePositions. set face)"
    by (simp add: polygon_get_vertices_def)
  from e f ve vf show ?thesis by blast
qed

section \<open>Theorems about adding, removing and snapping vertices\<close>

lemma removeCandidate_filter:
  "foldl (\<lambda>testGeometry position.
            if position \<notin> set V then addPoint K testGeometry position else testGeometry) acc ps =
   foldl (addPoint K) acc (filter (\<lambda>p. p \<notin> set V) ps)"
  by (induction ps arbitrary: acc) simp_all

lemma snapCandidate_map:
  "foldl (\<lambda>newGeometry origin0. addPoint K newGeometry (snapDestination snapToF origin0)) acc ps =
   foldl (addPoint K) acc (map (snapDestination snapToF) ps)"
  by (induction ps arbitrary: acc) simp_all

text \<open>
  C9, as amended. \<open>canRemoveVertices\<close> returns the \<open>polyhedron()\<close> predicate of the geometry
  built from the vertices of the brush that are not to be removed, and \<open>canSnapVertices\<close>
  that of the geometry built from the vertices of the brush, each coordinate divided by the
  grid size, rounded and multiplied by the grid size. \<open>canAddVertex\<close> builds no candidate and
  asks for no \<open>polyhedron()\<close>: it returns true exactly for the positions within the world
  bounds that the geometry of the brush does not contain.
\<close>

theorem vertex_queries_polyhedron:
  assumes "V \<noteq> []"
  shows
    "canRemoveVertices K worldBounds (Some g) V =
       Inr (polyhedron K (foldl (addPoint K) (emptyGeometry K)
                            (filter (\<lambda>p. p \<notin> set V) (vertexPositions K g)))) \<and>
     canSnapVertices K worldBounds g snapToF =
       polyhedron K (foldl (addPoint K) (emptyGeometry K)
                       (map (\<lambda>(x, y, z). (snapToF * round1 (x / snapToF),
                                          snapToF * round1 (y / snapToF),
                                          snapToF * round1 (z / snapToF)))
                          (vertexPositions K g))) \<and>
     canAddVertex K worldBounds (Some g) position =
       Inr (bbox_contains_point worldBounds position \<and> \<not> contains K g position)"
proof -
  have r: "canRemoveVertices K worldBounds (Some g) V =
       Inr (polyhedron K (foldl (addPoint K) (emptyGeometry K)
                            (filter (\<lambda>p. p \<notin> set V) (vertexPositions K g))))"
    using assms
    by (simp add: canRemoveVertices_def removeCandidate_def removeCandidate_filter)
  have d: "snapDestination snapToF =
             (\<lambda>(x, y, z). (snapToF * round1 (x / snapToF), snapToF * round1 (y / snapToF),
                           snapToF * round1 (z / snapToF)))"
    by (rule ext) auto
  have "canSnapVertices K worldBounds g snapToF =
       polyhedron K (foldl (addPoint K) (emptyGeometry K)
                       (map (snapDestination snapToF) (vertexPositions K g)))"
    by (simp add: canSnapVertices_def snapCandidate_def snapCandidate_map)
  then have s: "canSnapVertices K worldBounds g snapToF =
       polyhedron K (foldl (addPoint K) (emptyGeometry K)
                       (map (\<lambda>(x, y, z). (snapToF * round1 (x / snapToF),
                                          snapToF * round1 (y / snapToF),
                                          snapToF * round1 (z / snapToF)))
                          (vertexPositions K g)))"
    by (simp only: d)
  have a: "canAddVertex K worldBounds (Some g) position =
       Inr (bbox_contains_point worldBounds position \<and> \<not> contains K g position)"
    by (simp add: canAddVertex_def)
  from r s a show ?thesis by blast
qed

text \<open>
  Rounding gives the nearest integer, and of two nearest integers the one away from zero.
\<close>

lemma round1_nearest: "\<bar>round1 x - x\<bar> \<le> 1 / 2"
proof -
  have a: "real_of_int \<lfloor>y\<rfloor> \<le> y \<and> y < real_of_int \<lfloor>y\<rfloor> + 1" for y :: real
    using floor_correct [of y] by simp
  show ?thesis
    using a [of "x + 1 / 2"] a [of "- x + 1 / 2"] unfolding round1_def
    by (cases "0 \<le> x") (simp_all only: if_True if_False, linarith+)
qed

lemma round1_integer: "\<exists>n :: int. round1 x = of_int n"
  by (simp add: round1_def) (metis of_int_minus)

section \<open>Theorems about building the geometry\<close>

lemma allPayloadsSet_iff:
  "allPayloadsSet B g fs = (\<forall>f \<in> set fs. payload B g f \<noteq> None)"
  by (induction fs) simp_all

lemma buildGeometry_state:
  "snd (buildGeometry K B worldBounds brush) =
   brush\<lparr>m_faces :=
           fst (updateFacesFromGeometry K B
                  (geometryAfter (addFacesToGeometry B
                     (boundsGeometry B (bbox_expand worldBounds 1)) (m_faces brush)))),
         m_geometry :=
           Some (snd (updateFacesFromGeometry K B
                        (geometryAfter (addFacesToGeometry B
                           (boundsGeometry B (bbox_expand worldBounds 1)) (m_faces brush)))))\<rparr>"
  by (simp add: buildGeometry_def Let_def if_distrib [of snd] cong: if_cong)

lemma brushEmpty_addFacesToGeometry:
  "brushEmpty (addFacesToGeometry B g fs) = snd (clipByFaces B g (sortFaces B fs))"
  by (simp add: addFacesToGeometry_def split: prod.splits)

lemma brushValid_addFacesToGeometry:
  "brushValid (addFacesToGeometry B g fs) =
     (snd (clipByFaces B g (sortFaces B fs)) \<or>
      snd (healEdges B (correctVertexPositions B (fst (clipByFaces B g (sortFaces B fs))))))"
  by (simp add: addFacesToGeometry_def split: prod.splits)

text \<open>
  C5, as amended. \<open>buildGeometry\<close> throws one of three exceptions with three different
  messages, or none: "Brush is empty" exactly when one of the clips of the initial box by
  the faces, taken in sorted order, left nothing; "Brush is invalid" exactly when no clip
  did and healing the edges of the clipped geometry, its vertex positions corrected,
  failed; "Brush is not fully specified" exactly when neither happened and some face of
  the geometry it installed has a null payload; and it succeeds exactly when none of the
  three conditions holds. In every case it has installed a geometry.
\<close>

theorem buildGeometry_failures:
  fixes K :: "('g, 'f) kernel" and B :: "('g, 'f, 'bf, 'm, 'a, 's) builder"
  defines "clipped \<equiv> \<lambda>worldBounds brush.
             clipByFaces B (boundsGeometry B (bbox_expand worldBounds 1))
               (sortFaces B (m_faces brush))"
  shows
    "(fst (buildGeometry K B worldBounds brush) = Some (GeometryException ''Brush is empty'')
        \<longleftrightarrow> snd (clipped worldBounds brush)) \<and>
     (fst (buildGeometry K B worldBounds brush) = Some (GeometryException ''Brush is invalid'')
        \<longleftrightarrow> \<not> snd (clipped worldBounds brush) \<and>
            \<not> snd (healEdges B (correctVertexPositions B (fst (clipped worldBounds brush))))) \<and>
     (fst (buildGeometry K B worldBounds brush) =
        Some (GeometryException ''Brush is not fully specified'')
        \<longleftrightarrow> \<not> snd (clipped worldBounds brush) \<and>
            snd (healEdges B (correctVertexPositions B (fst (clipped worldBounds brush)))) \<and>
            (\<exists>g. m_geometry (snd (buildGeometry K B worldBounds brush)) = Some g \<and>
                 (\<exists>f \<in> set (faces K g). payload B g f = None))) \<and>
     (fst (buildGeometry K B worldBounds brush) = None
        \<longleftrightarrow> \<not> snd (clipped worldBounds brush) \<and>
            snd (healEdges B (correctVertexPositions B (fst (clipped worldBounds brush)))) \<and>
            (\<exists>g. m_geometry (snd (buildGeometry K B worldBounds brush)) = Some g \<and>
                 (\<forall>f \<in> set (faces K g). payload B g f \<noteq> None))) \<and>
     m_geometry (snd (buildGeometry K B worldBounds brush)) \<noteq> None \<and>
     GeometryException ''Brush is empty'' \<noteq> GeometryException ''Brush is invalid'' \<and>
     GeometryException ''Brush is empty'' \<noteq> GeometryException ''Brush is not fully specified'' \<and>
     GeometryException ''Brush is invalid'' \<noteq> GeometryException ''Brush is not fully specified''"
proof -
  define a where
    "a = addFacesToGeometry B (boundsGeometry B (bbox_expand worldBounds 1)) (m_faces brush)"
  define u where "u = updateFacesFromGeometry K B (geometryAfter a)"
  define full where "full = (\<forall>f \<in> set (faces K (snd u)). payload B (snd u) f \<noteq> None)"
  have e: "brushEmpty a = snd (clipped worldBounds brush)"
    by (simp add: a_def clipped_def brushEmpty_addFacesToGeometry)
  have v: "brushValid a =
             (snd (clipped worldBounds brush) \<or>
              snd (healEdges B (correctVertexPositions B (fst (clipped worldBounds brush)))))"
    by (simp add: a_def clipped_def brushValid_addFacesToGeometry)
  have fs: "fullySpecified K B (brush\<lparr>m_faces := fst u, m_geometry := Some (snd u)\<rparr>) = Inr full"
    by (simp add: fullySpecified_def allPayloadsSet_iff full_def)
  have g: "m_geometry (snd (buildGeometry K B worldBounds brush)) = Some (snd u)"
    by (simp add: buildGeometry_state a_def u_def)
  have r: "fst (buildGeometry K B worldBounds brush) =
        (if brushEmpty a then Some (GeometryException ''Brush is empty'')
         else if \<not> brushValid a then Some (GeometryException ''Brush is invalid'')
         else if \<not> full then Some (GeometryException ''Brush is not fully specified'')
         else None)"
    unfolding buildGeometry_def Let_def a_def [symmetric] u_def [symmetric] fs by simp
  show ?thesis
    unfolding r g e v by (auto simp add: full_def)
qed

section \<open>Theorems about expanding and transforming\<close>

text \<open>
  C4, as amended. \<open>expand\<close> and \<open>transform\<close> overwrite the faces of the brush before the
  geometry is rebuilt, and a failure restores nothing: when \<open>expand\<close> returns false, or
  \<open>transform\<close> throws, the brush is left with the faces as far as they were transformed
  and, when no face threw, with the geometry built from the transformed faces and the face
  list read back from that geometry.
\<close>

theorem expand_transform_failure_state:
  fixes K :: "('g, 'f) kernel" and B :: "('g, 'f, 'bf, 'm, 'a, 's) builder"
  defines "candidate \<equiv> \<lambda>worldBounds fs.
             updateFacesFromGeometry K B
               (geometryAfter (addFacesToGeometry B
                  (boundsGeometry B (bbox_expand worldBounds 1)) fs))"
  shows
    "(fst (expand K B worldBounds delta lockTexture brush) = Inr False \<longrightarrow>
        (\<exists>fs. transformFaces B
                 (\<lambda>face. translation_matrix B (vscale delta (normal (boundary B face))))
                 lockTexture (m_faces brush) = (None, fs) \<and>
              m_faces (snd (expand K B worldBounds delta lockTexture brush)) =
                fst (candidate worldBounds fs) \<and>
              m_geometry (snd (expand K B worldBounds delta lockTexture brush)) =
                Some (snd (candidate worldBounds fs)))) \<and>
     (fst (Brush_transform K B M lockTexture worldBounds brush) \<noteq> None \<longrightarrow>
        (\<exists>thrown fs. transformFaces B (\<lambda>face. M) lockTexture (m_faces brush) = (thrown, fs) \<and>
              (thrown \<noteq> None \<longrightarrow>
                 snd (Brush_transform K B M lockTexture worldBounds brush) =
                   brush\<lparr>m_faces := fs\<rparr>) \<and>
              (thrown = None \<longrightarrow>
                 m_faces (snd (Brush_transform K B M lockTexture worldBounds brush)) =
                   fst (candidate worldBounds fs) \<and>
                 m_geometry (snd (Brush_transform K B M lockTexture worldBounds brush)) =
                   Some (snd (candidate worldBounds fs)))))"
proof -
  have rb: "\<And>b. snd (rebuildGeometry K B worldBounds b) =
             b\<lparr>m_faces := fst (candidate worldBounds (m_faces b)),
               m_geometry := Some (snd (candidate worldBounds (m_faces b)))\<rparr>"
    by (simp add: rebuildGeometry_def buildGeometry_state deleteGeometry_def candidate_def)
  have e: "fst (expand K B worldBounds delta lockTexture brush) = Inr False \<longrightarrow>
        (\<exists>fs. transformFaces B
                 (\<lambda>face. translation_matrix B (vscale delta (normal (boundary B face))))
                 lockTexture (m_faces brush) = (None, fs) \<and>
              m_faces (snd (expand K B worldBounds delta lockTexture brush)) =
                fst (candidate worldBounds fs) \<and>
              m_geometry (snd (expand K B worldBounds delta lockTexture brush)) =
                Some (snd (candidate worldBounds fs)))"
  proof (cases "transformFaces B
                 (\<lambda>face. translation_matrix B (vscale delta (normal (boundary B face))))
                 lockTexture (m_faces brush)")
    case (Pair thrown fs)
    show ?thesis
    proof (cases thrown)
      case None
      obtain t b where r: "rebuildGeometry K B worldBounds (brush\<lparr>m_faces := fs\<rparr>) = (t, b)"
        by (cases "rebuildGeometry K B worldBounds (brush\<lparr>m_faces := fs\<rparr>)") auto
      then have b: "b = snd (rebuildGeometry K B worldBounds (brush\<lparr>m_faces := fs\<rparr>))"
        by simp
      have "snd (expand K B worldBounds delta lockTexture brush) = b"
        using Pair None r by (simp add: expand_def split: option.splits error.splits)
      then show ?thesis
        using Pair None b by (simp add: rb)
    next
      case (Some msg)
      then show ?thesis
        using Pair by (simp add: expand_def)
    qed
  qed
  have t: "fst (Brush_transform K B M lockTexture worldBounds brush) \<noteq> None \<longrightarrow>
        (\<exists>thrown fs. transformFaces B (\<lambda>face. M) lockTexture (m_faces brush) = (thrown, fs) \<and>
              (thrown \<noteq> None \<longrightarrow>
                 snd (Brush_transform K B M lockTexture worldBounds brush) =
                   brush\<lparr>m_faces := fs\<rparr>) \<and>
              (thrown = None \<longrightarrow>
                 m_faces (snd (Brush_transform K B M lockTexture worldBounds brush)) =
                   fst (candidate worldBounds fs) \<and>
                 m_geometry (snd (Brush_transform K B M lockTexture worldBounds brush)) =
                   Some (snd (candidate worldBounds fs))))"
  proof (cases "transformFaces B (\<lambda>face. M) lockTexture (m_faces brush)")
    case (Pair thrown fs)
    then show ?thesis
      by (cases thrown) (simp_all add: Brush_transform_def rb)
  qed
  from e t show ?thesis by blast
qed

section \<open>Theorems about UV lock\<close>

lemma entry_equal_self: "entry_equal e e = (e \<noteq> NaN)"
  by (cases e) simp_all

text \<open>A matrix is equal to itself exactly when none of its entries is NaN.\<close>

lemma mat_equal_self: "mat_equal B M M = (NaN \<notin> set (entries B M))"
  by (auto simp add: mat_equal_def list_all2_same entry_equal_self)


text \<open>
  \<open>findTransformForUVLock\<close> finds a transform exactly when fewer than three of the matching
  vertices are unmoved, there are three reference pairs and the matrix solved from the
  first three has no NaN entry; an infinite entry does not make it give up.
\<close>

lemma findTransformForUVLock_succeeds:
  "findTransformForUVLock K B matcher0 left right =
     (if length (unmovedVerts K B matcher0 left right) < 3 \<and>
         3 \<le> length (referenceVerts K B matcher0 left right) \<and>
         NaN \<notin> set (entries B (referenceTransform B (referenceVerts K B matcher0 left right)))
      then (True, referenceTransform B (referenceVerts K B matcher0 left right))
      else (False, mat4x4 B))"
  by (auto simp add: findTransformForUVLock_def Let_def mat_equal_self)

text \<open>
  With three or more unmoved vertices among the matching pairs of a pair of faces,
  \<open>findTransformForUVLock\<close> gives up as well, and \<open>applyUVLock\<close> leaves the new face as it is.
\<close>

lemma applyUVLock_three_unmoved:
  assumes "3 \<le> length (unmovedVerts K B matcher0 left right)"
  shows "findTransformForUVLock K B matcher0 left right = (False, mat4x4 B)"
    and "applyUVLock K B matcher0 left right newGeometry = Inr newGeometry"
  using assms by (simp_all add: applyUVLock_def findTransformForUVLock_def)


section \<open>Theorems about moving vertices\<close>

lemma collectNewPositions_map_filter:
  "collectNewPositions K g delta result0 positions =
   result0 @ List.map_filter
              (\<lambda>position. findClosestVertex K g (vadd position delta) (almost_zero K)) positions"
  by (induction positions arbitrary: result0)
     (simp_all add: List.map_filter_simps split: option.splits)

text \<open>
  C10. When \<open>moveVertices\<close> returns a list, \<open>doMoveVertices\<close> has thrown nothing and has left
  the brush with a geometry, and the list holds, for the given positions in order, the
  position of the vertex of that geometry that \<open>findClosestVertex\<close> finds within
  \<open>almost_zero\<close> of the position plus \<open>delta\<close>, with no entry for a position for which it
  finds none; so the list is no longer than the list of positions.
\<close>

theorem moveVertices_result:
  assumes "moveVertices K B worldBounds positions delta uvLock brush = (Inr result0, brush')"
  shows "\<exists>g'. doMoveVertices K B worldBounds positions delta uvLock brush = (None, brush') \<and>
              m_geometry brush' = Some g' \<and>
              result0 = List.map_filter
                          (\<lambda>position. findClosestVertex K g' (vadd position delta) (almost_zero K))
                          positions \<and>
              length result0 \<le> length positions"
proof -
  obtain thrown b where d:
    "doMoveVertices K B worldBounds positions delta uvLock brush = (thrown, b)"
    by (cases "doMoveVertices K B worldBounds positions delta uvLock brush") auto
  with assms have n: "thrown = None" and b: "b = brush'"
    by (auto simp add: moveVertices_def split: option.splits)
  from assms d n b obtain g' where g: "m_geometry brush' = Some g'"
    by (auto simp add: moveVertices_def split: option.splits)
  from assms d n b g have
    "result0 = collectNewPositions K g' delta [] positions"
    by (simp add: moveVertices_def)
  then have r: "result0 = List.map_filter
                  (\<lambda>position. findClosestVertex K g' (vadd position delta) (almost_zero K))
                  positions"
    by (simp add: collectNewPositions_map_filter)
  have "length result0 \<le> length positions"
    unfolding r by (simp add: List.map_filter_def)
  with d n b g r show ?thesis by simp
qed

section \<open>The feasibility check at concrete brushes\<close>

lemma bipyramid_eval:
  "bipyramid =
     \<lparr>hspan = [(0, 0, 0), (4, 0, 0), (0, 4, 0), (1, 1, - 4), (1, 1, 3)],
      hpoints = [(0, 0, 0), (4, 0, 0), (0, 4, 0), (1, 1, - 4), (1, 1, 3)],
      hfaces =
        [\<lparr>fnormal = (0, - 16, - 4), fanchor = (0, 0, 0),
          fvertices = [(0, 0, 0), (4, 0, 0), (1, 1, - 4)]\<rparr>,
         \<lparr>fnormal = (0, - 12, 4), fanchor = (0, 0, 0),
          fvertices = [(0, 0, 0), (4, 0, 0), (1, 1, 3)]\<rparr>,
         \<lparr>fnormal = (- 16, 0, - 4), fanchor = (0, 0, 0),
          fvertices = [(0, 0, 0), (0, 4, 0), (1, 1, - 4)]\<rparr>,
         \<lparr>fnormal = (- 12, 0, 4), fanchor = (0, 0, 0),
          fvertices = [(0, 0, 0), (0, 4, 0), (1, 1, 3)]\<rparr>,
         \<lparr>fnormal = (16, 16, - 8), fanchor = (4, 0, 0),
          fvertices = [(4, 0, 0), (0, 4, 0), (1, 1, - 4)]\<rparr>,
         \<lparr>fnormal = (12, 12, 8), fanchor = (4, 0, 0),
          fvertices = [(4, 0, 0), (0, 4, 0), (1, 1, 3)]\<rparr>],
      hpayloads = []\<rparr>"
  by (simp add: bipyramid_def hullOf_def hull_geometry_eval)

lemma tetrahedron_eval:
  "tetrahedron =
     \<lparr>hspan = [(0, 0, 0), (4, 0, 0), (0, 4, 0), (1, 1, - 4)],
      hpoints = [(0, 0, 0), (4, 0, 0), (0, 4, 0), (1, 1, - 4)],
      hfaces =
        [\<lparr>fnormal = (0, 0, 16), fanchor = (0, 0, 0),
          fvertices = [(0, 0, 0), (4, 0, 0), (0, 4, 0)]\<rparr>,
         \<lparr>fnormal = (0, - 16, - 4), fanchor = (0, 0, 0),
          fvertices = [(0, 0, 0), (4, 0, 0), (1, 1, - 4)]\<rparr>,
         \<lparr>fnormal = (- 16, 0, - 4), fanchor = (0, 0, 0),
          fvertices = [(0, 0, 0), (0, 4, 0), (1, 1, - 4)]\<rparr>,
         \<lparr>fnormal = (16, 16, - 8), fanchor = (4, 0, 0),
          fvertices = [(4, 0, 0), (0, 4, 0), (1, 1, - 4)]\<rparr>],
      hpayloads = []\<rparr>"
  by (simp add: tetrahedron_def hullOf_def hull_geometry_eval)

text \<open>
  Moving the upper apex of the bipyramid up by six units takes it out of the world bounds.
\<close>

theorem canMoveVertices_false_witness:
  "0 \<le> almost_zero hullKernel \<and>
   \<not> bbox_contains world
       (bounds hullKernel
          (foldl (addPoint hullKernel) (emptyGeometry hullKernel)
             (map (movedPosition [(1, 1, 3)] (0, 0, 6)) (vertexPositions hullKernel bipyramid)))) \<and>
   \<not> canMoveVertices hullKernel world bipyramid [(1, 1, 3)] (0, 0, 6)"
proof -
  have a: "0 \<le> almost_zero hullKernel"
    by (simp add: hullKernel_sel)
  have b: "\<not> bbox_contains world
       (bounds hullKernel
          (foldl (addPoint hullKernel) (emptyGeometry hullKernel)
             (map (movedPosition [(1, 1, 3)] (0, 0, 6)) (vertexPositions hullKernel bipyramid))))"
    by (simp add: bipyramid_eval move_eval hull_geometry_eval)
  from a b canMoveVertices_false [OF a, of "(0, 0, 6)" "[(1, 1, 3)]" world bipyramid]
  show ?thesis by blast
qed

text \<open>
  The lower apex of the bipyramid, moved to \<open>(2, 1, 3)\<close>, passes through the tetrahedron of
  the other four vertices and leaves it through a face: the move reaches the sweep and is
  rejected.
\<close>

theorem doCanMoveVertices_check_witness:
  "reachesCheck hullKernel world bipyramid [(1, 1, - 4)] (1, 0, 7) True \<and>
   \<not> success (doCanMoveVertices hullKernel world bipyramid [(1, 1, - 4)] (1, 0, 7) True)"
proof -
  have r: "reachesCheck hullKernel world bipyramid [(1, 1, - 4)] (1, 0, 7) True"
    by (simp add: bipyramid_eval move_eval hull_geometry_eval)
  have t: "travelsThrough hullKernel
             (sweepMoving hullKernel bipyramid [(1, 1, - 4)] (1, 0, 7))
             (sweepRemaining hullKernel bipyramid [(1, 1, - 4)] (1, 0, 7))
             (sweepDelta hullKernel bipyramid [(1, 1, - 4)] (1, 0, 7))"
    by (simp add: bipyramid_eval move_eval hull_geometry_eval del: not_None_eq)
  from t doCanMoveVertices_check [OF r] have
    "\<not> success (doCanMoveVertices hullKernel world bipyramid [(1, 1, - 4)] (1, 0, 7) True)"
    by (simp only: travelsThrough_iff)
  with r show ?thesis by blast
qed

text \<open>
  C1 as stated fails: the upper apex of the bipyramid, moved down by four units, crosses
  the plane of the top face of the remaining tetrahedron from above (the outer side: a
  point above the plane of a face is not in the brush, see \<open>containsPoint\<close>) to below, and
  the ray along the move hits that face; the move reaches the sweep and is accepted.
\<close>

theorem doCanMoveVertices_check_counterexample:
  "reachesCheck hullKernel world bipyramid [(1, 1, 3)] (0, 0, - 4) True \<and>
   (1, 1, 3) \<in> set (vertexPositions hullKernel
                      (sweepMoving hullKernel bipyramid [(1, 1, 3)] (0, 0, - 4))) \<and>
   \<lparr>fnormal = (0, 0, 16), fanchor = (0, 0, 0), fvertices = [(0, 0, 0), (4, 0, 0), (0, 4, 0)]\<rparr>
     \<in> set (faces hullKernel (sweepRemaining hullKernel bipyramid [(1, 1, 3)] (0, 0, - 4))) \<and>
   sweepDelta hullKernel bipyramid [(1, 1, 3)] (0, 0, - 4) = (0, 0, - 4) \<and>
   pointStatus hullKernel
     \<lparr>fnormal = (0, 0, 16), fanchor = (0, 0, 0), fvertices = [(0, 0, 0), (4, 0, 0), (0, 4, 0)]\<rparr>
     (1, 1, 3) = above \<and>
   pointStatus hullKernel
     \<lparr>fnormal = (0, 0, 16), fanchor = (0, 0, 0), fvertices = [(0, 0, 0), (4, 0, 0), (0, 4, 0)]\<rparr>
     (vadd (1, 1, 3) (0, 0, - 4)) = below \<and>
   intersectWithRay hullKernel
     \<lparr>fnormal = (0, 0, 16), fanchor = (0, 0, 0), fvertices = [(0, 0, 0), (4, 0, 0), (0, 4, 0)]\<rparr>
     \<lparr>origin = (1, 1, 3),
      direction = normalize hullKernel (vsub (vadd (1, 1, 3) (0, 0, - 4)) (1, 1, 3))\<rparr>
     side_both = Some 3 \<and>
   intersectWithRay hullKernel
     \<lparr>fnormal = (0, 0, 16), fanchor = (0, 0, 0), fvertices = [(0, 0, 0), (4, 0, 0), (0, 4, 0)]\<rparr>
     \<lparr>origin = (1, 1, 3),
      direction = normalize hullKernel (vsub (vadd (1, 1, 3) (0, 0, - 4)) (1, 1, 3))\<rparr>
     side_front = Some 3 \<and>
   success (doCanMoveVertices hullKernel world bipyramid [(1, 1, 3)] (0, 0, - 4) True)"
  by (simp add: bipyramid_eval move_eval hull_geometry_eval)

text \<open>The tetrahedron, moved as a whole by one unit along the first axis.\<close>

theorem canMoveVertices_whole_brush_witness:
  "\<not> is_zero (1, 0, 0) (almost_zero hullKernel) \<and>
   vertexPositions hullKernel tetrahedron \<noteq> [] \<and>
   set (vertexPositions hullKernel tetrahedron)
     \<subseteq> set [(0, 0, 0), (4, 0, 0), (0, 4, 0), (1, 1, - 4)] \<and>
   vertexCount hullKernel
     (foldl (addPoint hullKernel) (emptyGeometry hullKernel)
        (vertexPositions hullKernel tetrahedron)) = vertexCount hullKernel tetrahedron \<and>
   bbox_contains world
     (bounds hullKernel
        (foldl (addPoint hullKernel) (emptyGeometry hullKernel)
           (map (\<lambda>p. vadd p (1, 0, 0)) (vertexPositions hullKernel tetrahedron)))) \<and>
   canMoveVertices hullKernel world tetrahedron [(0, 0, 0), (4, 0, 0), (0, 4, 0), (1, 1, - 4)]
     (1, 0, 0)"
proof -
  have a: "\<not> is_zero (1, 0, 0) (almost_zero hullKernel)"
    by (simp add: hullKernel_sel)
  have b: "vertexPositions hullKernel tetrahedron \<noteq> []"
    by (simp add: tetrahedron_eval hullKernel_sel)
  have c: "set (vertexPositions hullKernel tetrahedron)
             \<subseteq> set [(0, 0, 0), (4, 0, 0), (0, 4, 0), (1, 1, - 4)]"
    by (simp add: tetrahedron_eval hullKernel_sel)
  have d: "vertexCount hullKernel
             (foldl (addPoint hullKernel) (emptyGeometry hullKernel)
                (vertexPositions hullKernel tetrahedron)) = vertexCount hullKernel tetrahedron"
    by (simp add: tetrahedron_eval move_eval hull_geometry_eval)
  have e: "bbox_contains world
     (bounds hullKernel
        (foldl (addPoint hullKernel) (emptyGeometry hullKernel)
           (map (\<lambda>p. vadd p (1, 0, 0)) (vertexPositions hullKernel tetrahedron))))"
    by (simp add: tetrahedron_eval move_eval hull_geometry_eval)
  from a b c d e canMoveVertices_whole_brush [OF a b c d e] show ?thesis by blast
qed

text \<open>
  C3 as stated fails for the delta zero: the tetrahedron, all of its vertices moving,
  stays within the world bounds, and the move is rejected.
\<close>

theorem canMoveVertices_whole_brush_counterexample:
  "set (vertexPositions hullKernel tetrahedron)
     \<subseteq> set [(0, 0, 0), (4, 0, 0), (0, 4, 0), (1, 1, - 4)] \<and>
   bbox_contains world
     (bounds hullKernel
        (foldl (addPoint hullKernel) (emptyGeometry hullKernel)
           (map (\<lambda>p. vadd p (0, 0, 0)) (vertexPositions hullKernel tetrahedron)))) \<and>
   \<not> canMoveVertices hullKernel world tetrahedron [(0, 0, 0), (4, 0, 0), (0, 4, 0), (1, 1, - 4)]
       (0, 0, 0)"
  by (simp add: tetrahedron_eval move_eval hull_geometry_eval)

text \<open>
  An edge and a face of the tetrahedron: the move of either is feasible.
\<close>

theorem canMoveEdges_canMoveFaces_witness:
  "[\<lparr>seg_start = (0, 0, 0), seg_end = (4, 0, 0)\<rparr>] \<noteq> [] \<and>
   [[(0, 0, 0), (4, 0, 0), (0, 4, 0)]] \<noteq> ([] :: polygon3 list) \<and>
   canMoveEdges hullKernel world (Some tetrahedron)
     [\<lparr>seg_start = (0, 0, 0), seg_end = (4, 0, 0)\<rparr>] (0, - 1, 0) = Inr True \<and>
   success (doCanMoveVertices hullKernel world tetrahedron
              (segment_get_vertices [\<lparr>seg_start = (0, 0, 0), seg_end = (4, 0, 0)\<rparr>])
              (0, - 1, 0) False) \<and>
   canMoveFaces hullKernel world (Some tetrahedron)
     [[(0, 0, 0), (4, 0, 0), (0, 4, 0)]] (0, - 1, 0) = Inr True \<and>
   success (doCanMoveVertices hullKernel world tetrahedron
              (polygon_get_vertices [[(0, 0, 0), (4, 0, 0), (0, 4, 0)]]) (0, - 1, 0) False)"
proof -
  have a: "[\<lparr>seg_start = (0, 0, 0), seg_end = (4, 0, 0)\<rparr>] \<noteq> []"
    by simp
  have b: "[[(0, 0, 0), (4, 0, 0), (0, 4, 0)]] \<noteq> ([] :: polygon3 list)"
    by simp
  have c: "canMoveEdges hullKernel world (Some tetrahedron)
             [\<lparr>seg_start = (0, 0, 0), seg_end = (4, 0, 0)\<rparr>] (0, - 1, 0) = Inr True"
    by (simp add: tetrahedron_eval canMoveEdges_def segment_get_vertices_def move_eval
        hull_geometry_eval)
  have d: "canMoveFaces hullKernel world (Some tetrahedron)
             [[(0, 0, 0), (4, 0, 0), (0, 4, 0)]] (0, - 1, 0) = Inr True"
    by (simp add: tetrahedron_eval canMoveFaces_def polygon_get_vertices_def
        translateVertices_def move_eval hull_geometry_eval del: not_None_eq)
  from c d canMoveEdges_canMoveFaces [OF a b, of hullKernel world tetrahedron "(0, - 1, 0)"]
  have "success (doCanMoveVertices hullKernel world tetrahedron
              (segment_get_vertices [\<lparr>seg_start = (0, 0, 0), seg_end = (4, 0, 0)\<rparr>])
              (0, - 1, 0) False)"
    and "success (doCanMoveVertices hullKernel world tetrahedron
              (polygon_get_vertices [[(0, 0, 0), (4, 0, 0), (0, 4, 0)]]) (0, - 1, 0) False)"
    by simp_all
  with a b c d show ?thesis by blast
qed

lemma find_append_Some: "find P xs = Some x \<Longrightarrow> find P (xs @ ys) = Some x"
  by (induction xs) (auto split: if_splits)

lemma classify_append:
  assumes "classify ps = Polyhedron"
  shows "classify (ps @ [p]) = Polyhedron"
proof -
  from assms obtain a rest where ps: "ps = a # rest"
    by (cases ps) (auto simp add: classify_def)
  from assms ps obtain b where b: "find (\<lambda>b. b \<noteq> a) ps = Some b"
    by (auto simp add: classify_def split: option.splits)
  from assms ps b obtain c where c: "find (\<lambda>c. normal3 a b c \<noteq> zero3) ps = Some c"
    by (auto simp add: classify_def split: option.splits)
  from assms ps b c obtain d where
    d: "find (\<lambda>d. dot (normal3 a b c) (vsub d a) \<noteq> 0) ps = Some d"
    by (auto simp add: classify_def split: option.splits)
  have "ps @ [p] = a # (rest @ [p])" using ps by simp
  then show ?thesis
    using find_append_Some [OF b, of "[p]"] find_append_Some [OF c, of "[p]"]
      find_append_Some [OF d, of "[p]"]
    by (simp add: classify_def)
qed

text \<open>The concrete kernel never leaves the class of full polyhedra by adding a point.\<close>

lemma hull_addPoint_keeps_polyhedron:
  "polyhedron hullKernel g \<Longrightarrow> polyhedron hullKernel (addPoint hullKernel g p)"
  by (simp add: hullKernel_sel hg_class_def hg_addPoint_def withPoints_def classify_append)

text \<open>
  The tetrahedron without its lower apex is a triangle, the bipyramid without it a
  tetrahedron. Snapped to a grid of two the tetrahedron stays a full polyhedron; snapped to
  a grid of sixteen all its vertices fall on the origin. The point \<open>(1, 1, 3)\<close> above the
  tetrahedron can be added, the point \<open>(1, 1, - 1)\<close> inside it cannot.
\<close>

theorem vertex_queries_polyhedron_witness:
  "[(1, 1, - 4)] \<noteq> ([] :: vec3 list) \<and>
   canRemoveVertices hullKernel world (Some tetrahedron) [(1, 1, - 4)] = Inr False \<and>
   canRemoveVertices hullKernel world (Some bipyramid) [(1, 1, - 4)] = Inr True \<and>
   canSnapVertices hullKernel world tetrahedron 2 \<and>
   canSnapVertices hullKernel world tetrahedron 16 = False \<and>
   canAddVertex hullKernel world (Some tetrahedron) (1, 1, 3) = Inr True \<and>
   canAddVertex hullKernel world (Some tetrahedron) (1, 1, - 1) = Inr False"
proof -
  have a: "[(1, 1, - 4)] \<noteq> ([] :: vec3 list)"
    by simp
  have r: "\<not> polyhedron hullKernel
               (foldl (addPoint hullKernel) (emptyGeometry hullKernel)
                  (filter (\<lambda>p. p \<notin> set [(1, 1, - 4)]) (vertexPositions hullKernel tetrahedron)))"
    by (simp add: tetrahedron_eval hull_geometry_eval)
  have r': "polyhedron hullKernel
               (foldl (addPoint hullKernel) (emptyGeometry hullKernel)
                  (filter (\<lambda>p. p \<notin> set [(1, 1, - 4)]) (vertexPositions hullKernel bipyramid)))"
    by (simp add: bipyramid_eval hull_geometry_eval)
  have s: "polyhedron hullKernel
             (foldl (addPoint hullKernel) (emptyGeometry hullKernel)
                (map (\<lambda>(x, y, z). (2 * round1 (x / 2), 2 * round1 (y / 2), 2 * round1 (z / 2)))
                   (vertexPositions hullKernel tetrahedron)))"
    by (simp add: tetrahedron_eval hull_geometry_eval round1_def)
  have s': "\<not> polyhedron hullKernel
             (foldl (addPoint hullKernel) (emptyGeometry hullKernel)
                (map (\<lambda>(x, y, z). (16 * round1 (x / 16), 16 * round1 (y / 16),
                                   16 * round1 (z / 16)))
                   (vertexPositions hullKernel tetrahedron)))"
    by (simp add: tetrahedron_eval hull_geometry_eval round1_def)
  have c: "bbox_contains_point world (1, 1, 3) \<and> \<not> contains hullKernel tetrahedron (1, 1, 3)"
    by (simp add: tetrahedron_eval hull_geometry_eval bbox_contains_point_def world_def)
  have c': "contains hullKernel tetrahedron (1, 1, - 1)"
    by (simp add: tetrahedron_eval hull_geometry_eval)
  from r vertex_queries_polyhedron [OF a, of hullKernel world tetrahedron 2 "(1, 1, 3)"]
  have 1: "canRemoveVertices hullKernel world (Some tetrahedron) [(1, 1, - 4)] = Inr False"
    by simp
  from r' vertex_queries_polyhedron [OF a, of hullKernel world bipyramid 2 "(1, 1, 3)"]
  have 2: "canRemoveVertices hullKernel world (Some bipyramid) [(1, 1, - 4)] = Inr True"
    by simp
  from s vertex_queries_polyhedron [OF a, of hullKernel world tetrahedron 2 "(1, 1, 3)"]
  have 3: "canSnapVertices hullKernel world tetrahedron 2"
    by simp
  from s' vertex_queries_polyhedron [OF a, of hullKernel world tetrahedron 16 "(1, 1, 3)"]
  have 4: "canSnapVertices hullKernel world tetrahedron 16 = False"
    by simp
  from c vertex_queries_polyhedron [OF a, of hullKernel world tetrahedron 2 "(1, 1, 3)"]
  have 5: "canAddVertex hullKernel world (Some tetrahedron) (1, 1, 3) = Inr True"
    by simp
  from c' vertex_queries_polyhedron [OF a, of hullKernel world tetrahedron 2 "(1, 1, - 1)"]
  have 6: "canAddVertex hullKernel world (Some tetrahedron) (1, 1, - 1) = Inr False"
    by simp
  from a 1 2 3 4 5 6 show ?thesis by blast
qed

text \<open>
  C9 as stated fails: \<open>canAddVertex\<close> rejects the point \<open>(1, 1, - 1)\<close> inside the
  tetrahedron and the point \<open>(9, 0, 0)\<close> outside the world bounds, although the geometry
  with either point added is a full polyhedron; its answer is not the \<open>polyhedron()\<close>
  predicate of a candidate.
\<close>

theorem vertex_queries_polyhedron_counterexample:
  "canAddVertex hullKernel world (Some tetrahedron) (1, 1, - 1) = Inr False \<and>
   polyhedron hullKernel (addPoint hullKernel tetrahedron (1, 1, - 1)) \<and>
   canAddVertex hullKernel world (Some tetrahedron) (9, 0, 0) = Inr False \<and>
   polyhedron hullKernel (addPoint hullKernel tetrahedron (9, 0, 0))"
proof -
  have p: "polyhedron hullKernel tetrahedron"
    by (simp add: tetrahedron_eval hull_geometry_eval)
  have 1: "canAddVertex hullKernel world (Some tetrahedron) (1, 1, - 1) = Inr False"
    by (simp add: canAddVertex_def tetrahedron_eval hull_geometry_eval)
  have 2: "canAddVertex hullKernel world (Some tetrahedron) (9, 0, 0) = Inr False"
    by (simp add: canAddVertex_def bbox_contains_point_def world_def)
  from p 1 2 hull_addPoint_keeps_polyhedron [of tetrahedron] show ?thesis by blast
qed

section \<open>Building, expanding and moving at concrete brushes\<close>

lemmas brush_ops_eval =
  expand_def Brush_transform_def canExpand_def canTransform_def copyBrush_def faceWasCopied_def
  cubeFaces_def bipyramidFaces_def plainFace_def world_def

lemmas uvlock_eval =
  unmovedVerts_def movedVerts_def referenceVerts_def referenceTransform_def
  findTransformForUVLock_def copyTexturing_def applyUVLock_def visitRightFace_def
  doSetNewGeometry_def moveCandidate_def insertVertexMapping_def doMoveVertices_def
  moveVertices_def

lemma cubeBrush_eval:
  "cubeBrush =
     \<lparr>m_faces =
         [\<lparr>bf_points = ((0, 0, 0), (0, 0, 4), 0, 4, 0),
             bf_attribs = \<lparr>textureName = ''stone'', xOffset = 0, yOffset = 0\<rparr>\<rparr>,
          \<lparr>bf_points = ((4, 0, 0), (4, 4, 0), 4, 0, 4),
             bf_attribs = \<lparr>textureName = ''stone'', xOffset = 0, yOffset = 0\<rparr>\<rparr>,
          \<lparr>bf_points = ((0, 0, 0), (4, 0, 0), 0, 0, 4),
             bf_attribs = \<lparr>textureName = ''stone'', xOffset = 0, yOffset = 0\<rparr>\<rparr>,
          \<lparr>bf_points = ((0, 4, 0), (0, 4, 4), 4, 4, 0),
             bf_attribs = \<lparr>textureName = ''stone'', xOffset = 0, yOffset = 0\<rparr>\<rparr>,
          \<lparr>bf_points = ((0, 0, 0), (0, 4, 0), 4, 0, 0),
             bf_attribs = \<lparr>textureName = ''stone'', xOffset = 0, yOffset = 0\<rparr>\<rparr>,
          \<lparr>bf_points = ((0, 0, 4), (4, 0, 4), 0, 4, 4),
             bf_attribs = \<lparr>textureName = ''stone'', xOffset = 0, yOffset = 0\<rparr>\<rparr>],
         m_geometry =
           Some
            \<lparr>hspan =
               [(0, 0, 0), (4, 0, 0), (0, 4, 0), (4, 4, 0), (0, 0, 4), (4, 0, 4),
                (0, 4, 4), (4, 4, 4)],
               hpoints =
                 [(0, 0, 0), (4, 0, 0), (0, 4, 0), (4, 4, 0), (0, 0, 4),
                  (4, 0, 4), (0, 4, 4), (4, 4, 4)],
               hfaces =
                 [\<lparr>fnormal = (- 1, 0, 0), fanchor = (0, - 9, - 9),
                     fvertices = [(0, 0, 0), (0, 4, 0), (0, 0, 4), (0, 4, 4)]\<rparr>,
                  \<lparr>fnormal = (1, 0, 0), fanchor = (4, - 9, - 9),
                     fvertices = [(4, 0, 0), (4, 4, 0), (4, 0, 4), (4, 4, 4)]\<rparr>,
                  \<lparr>fnormal = (0, - 1, 0), fanchor = (0, 0, - 9),
                     fvertices = [(0, 0, 0), (4, 0, 0), (0, 0, 4), (4, 0, 4)]\<rparr>,
                  \<lparr>fnormal = (0, 1, 0), fanchor = (0, 4, - 9),
                     fvertices = [(0, 4, 0), (4, 4, 0), (0, 4, 4), (4, 4, 4)]\<rparr>,
                  \<lparr>fnormal = (0, 0, - 1), fanchor = (0, 0, 0),
                     fvertices = [(0, 0, 0), (4, 0, 0), (0, 4, 0), (4, 4, 0)]\<rparr>,
                  \<lparr>fnormal = (0, 0, 1), fanchor = (0, 0, 4),
                     fvertices = [(0, 0, 4), (4, 0, 4), (0, 4, 4), (4, 4, 4)]\<rparr>],
               hpayloads =
                 [(((0, 0, 1), 4),
                   \<lparr>bf_points = ((0, 0, 4), (4, 0, 4), 0, 4, 4),
                      bf_attribs =
                        \<lparr>textureName = ''stone'', xOffset = 0, yOffset = 0\<rparr>\<rparr>),
                  (((0, 0, - 1), 0),
                   \<lparr>bf_points = ((0, 0, 0), (0, 4, 0), 4, 0, 0),
                      bf_attribs =
                        \<lparr>textureName = ''stone'', xOffset = 0, yOffset = 0\<rparr>\<rparr>),
                  (((0, 1, 0), 4),
                   \<lparr>bf_points = ((0, 4, 0), (0, 4, 4), 4, 4, 0),
                      bf_attribs =
                        \<lparr>textureName = ''stone'', xOffset = 0, yOffset = 0\<rparr>\<rparr>),
                  (((0, - 1, 0), 0),
                   \<lparr>bf_points = ((0, 0, 0), (4, 0, 0), 0, 0, 4),
                      bf_attribs =
                        \<lparr>textureName = ''stone'', xOffset = 0, yOffset = 0\<rparr>\<rparr>),
                  (((1, 0, 0), 4),
                   \<lparr>bf_points = ((4, 0, 0), (4, 4, 0), 4, 0, 4),
                      bf_attribs =
                        \<lparr>textureName = ''stone'', xOffset = 0, yOffset = 0\<rparr>\<rparr>),
                  (((- 1, 0, 0), 0),
                   \<lparr>bf_points = ((0, 0, 0), (0, 0, 4), 0, 4, 0),
                      bf_attribs =
                        \<lparr>textureName = ''stone'', xOffset = 0, yOffset = 0\<rparr>\<rparr>)]\<rparr>,
         m_transparent = False\<rparr>"
  by (simp add: cubeBrush_def brush_ops_eval brush_build_eval hull_builder_eval
      hull_geometry_eval)

lemma bipyramidBrush_eval:
  "bipyramidBrush =
     \<lparr>m_faces =
         [\<lparr>bf_points = ((0, 0, 0), (1, 1, - 4), 4, 0, 0),
             bf_attribs = \<lparr>textureName = ''stone'', xOffset = 0, yOffset = 0\<rparr>\<rparr>,
          \<lparr>bf_points = ((0, 0, 0), (4, 0, 0), 1, 1, 3),
             bf_attribs = \<lparr>textureName = ''stone'', xOffset = 0, yOffset = 0\<rparr>\<rparr>,
          \<lparr>bf_points = ((0, 0, 0), (0, 4, 0), 1, 1, - 4),
             bf_attribs = \<lparr>textureName = ''stone'', xOffset = 0, yOffset = 0\<rparr>\<rparr>,
          \<lparr>bf_points = ((0, 0, 0), (1, 1, 3), 0, 4, 0),
             bf_attribs = \<lparr>textureName = ''stone'', xOffset = 0, yOffset = 0\<rparr>\<rparr>,
          \<lparr>bf_points = ((4, 0, 0), (1, 1, - 4), 0, 4, 0),
             bf_attribs = \<lparr>textureName = ''stone'', xOffset = 0, yOffset = 0\<rparr>\<rparr>,
          \<lparr>bf_points = ((4, 0, 0), (0, 4, 0), 1, 1, 3),
             bf_attribs = \<lparr>textureName = ''stone'', xOffset = 0, yOffset = 0\<rparr>\<rparr>],
         m_geometry =
           Some
            \<lparr>hspan = [(0, 0, 0), (4, 0, 0), (1, 1, - 4), (0, 4, 0), (1, 1, 3)],
               hpoints =
                 [(0, 0, 0), (4, 0, 0), (1, 1, - 4), (0, 4, 0), (1, 1, 3)],
               hfaces =
                 [\<lparr>fnormal = (0, - 1, - (1 / 4)), fanchor = (- 9, 9 / 4, - 9),
                     fvertices = [(0, 0, 0), (4, 0, 0), (1, 1, - 4)]\<rparr>,
                  \<lparr>fnormal = (0, - 1, 1 / 3), fanchor = (- 9, 3, 9),
                     fvertices = [(0, 0, 0), (4, 0, 0), (1, 1, 3)]\<rparr>,
                  \<lparr>fnormal = (- 1, 0, - (1 / 4)), fanchor = (9 / 4, 9, - 9),
                     fvertices = [(0, 0, 0), (1, 1, - 4), (0, 4, 0)]\<rparr>,
                  \<lparr>fnormal = (- 1, 0, 1 / 3), fanchor = (0, 0, 0),
                     fvertices = [(0, 0, 0), (0, 4, 0), (1, 1, 3)]\<rparr>,
                  \<lparr>fnormal = (1, 1, - (1 / 2)), fanchor = (4, 0, 0),
                     fvertices = [(4, 0, 0), (1, 1, - 4), (0, 4, 0)]\<rparr>,
                  \<lparr>fnormal = (1, 1, 2 / 3), fanchor = (4, 0, 0),
                     fvertices = [(4, 0, 0), (0, 4, 0), (1, 1, 3)]\<rparr>],
               hpayloads =
                 [(((1, 1, 2 / 3), 4),
                   \<lparr>bf_points = ((4, 0, 0), (0, 4, 0), 1, 1, 3),
                      bf_attribs =
                        \<lparr>textureName = ''stone'', xOffset = 0, yOffset = 0\<rparr>\<rparr>),
                  (((1, 1, - (1 / 2)), 4),
                   \<lparr>bf_points = ((4, 0, 0), (1, 1, - 4), 0, 4, 0),
                      bf_attribs =
                        \<lparr>textureName = ''stone'', xOffset = 0, yOffset = 0\<rparr>\<rparr>),
                  (((- 1, 0, 1 / 3), 0),
                   \<lparr>bf_points = ((0, 0, 0), (1, 1, 3), 0, 4, 0),
                      bf_attribs =
                        \<lparr>textureName = ''stone'', xOffset = 0, yOffset = 0\<rparr>\<rparr>),
                  (((- 1, 0, - (1 / 4)), 0),
                   \<lparr>bf_points = ((0, 0, 0), (0, 4, 0), 1, 1, - 4),
                      bf_attribs =
                        \<lparr>textureName = ''stone'', xOffset = 0, yOffset = 0\<rparr>\<rparr>),
                  (((0, - 1, 1 / 3), 0),
                   \<lparr>bf_points = ((0, 0, 0), (4, 0, 0), 1, 1, 3),
                      bf_attribs =
                        \<lparr>textureName = ''stone'', xOffset = 0, yOffset = 0\<rparr>\<rparr>),
                  (((0, - 1, - (1 / 4)), 0),
                   \<lparr>bf_points = ((0, 0, 0), (1, 1, - 4), 4, 0, 0),
                      bf_attribs =
                        \<lparr>textureName = ''stone'', xOffset = 0, yOffset = 0\<rparr>\<rparr>)]\<rparr>,
         m_transparent = False\<rparr>"
  by (simp add: bipyramidBrush_def brush_ops_eval brush_build_eval hull_builder_eval
      hull_geometry_eval)





text \<open>
  The cube is built from its six faces without an exception. After a face below it, the
  clip by the bottom face of the cube leaves nothing, and the loop stops before the top
  face; as a slab thinner than the minimal edge length it does not
  survive the healing of its edges; without its top face the top of the initial box stays
  in the geometry, without a payload.
\<close>

theorem buildGeometry_failures_witness:
  "fst (buildGeometry hullKernel hullBuilder world (unbuilt cubeFaces)) = None \<and>
   fst (buildGeometry hullKernel hullBuilder world (unbuilt emptyingFaces)) =
     Some (GeometryException ''Brush is empty'') \<and>
   snd (clipByFaces hullBuilder (boundsGeometry hullBuilder (bbox_expand world 1))
          (sortFaces hullBuilder emptyingFaces)) \<and>
   fst (buildGeometry hullKernel hullBuilder world (unbuilt slabFaces)) =
     Some (GeometryException ''Brush is invalid'') \<and>
   snd (healEdges hullBuilder
          (correctVertexPositions hullBuilder
             (fst (clipByFaces hullBuilder (boundsGeometry hullBuilder (bbox_expand world 1))
                     (sortFaces hullBuilder slabFaces))))) = False \<and>
   fst (buildGeometry hullKernel hullBuilder world (unbuilt openFaces)) =
     Some (GeometryException ''Brush is not fully specified'')"
proof -
  have c: "fst (buildGeometry hullKernel hullBuilder world (unbuilt cubeFaces)) = None"
    by (simp add: faces_eval brush_build_eval hull_builder_eval hull_geometry_eval)
  have e: "fst (buildGeometry hullKernel hullBuilder world (unbuilt emptyingFaces)) =
             Some (GeometryException ''Brush is empty'')"
    by (simp add: faces_eval brush_build_eval hull_builder_eval hull_geometry_eval)
  have i: "fst (buildGeometry hullKernel hullBuilder world (unbuilt slabFaces)) =
             Some (GeometryException ''Brush is invalid'')"
    by (simp add: faces_eval brush_build_eval hull_builder_eval hull_geometry_eval)
  have n: "fst (buildGeometry hullKernel hullBuilder world (unbuilt openFaces)) =
             Some (GeometryException ''Brush is not fully specified'')"
    by (simp add: faces_eval brush_build_eval hull_builder_eval hull_geometry_eval)
  have m: "m_faces (unbuilt fs) = fs" for fs
    by (simp add: unbuilt_def)
  from e buildGeometry_failures [of hullKernel hullBuilder world "unbuilt emptyingFaces"]
  have e': "snd (clipByFaces hullBuilder (boundsGeometry hullBuilder (bbox_expand world 1))
                   (sortFaces hullBuilder emptyingFaces))"
    by (simp add: m)
  from i buildGeometry_failures [of hullKernel hullBuilder world "unbuilt slabFaces"]
  have i': "snd (healEdges hullBuilder
          (correctVertexPositions hullBuilder
             (fst (clipByFaces hullBuilder (boundsGeometry hullBuilder (bbox_expand world 1))
                     (sortFaces hullBuilder slabFaces))))) = False"
    by (simp add: m)
  from c e e' i i' n show ?thesis by blast
qed

text \<open>
  C5 as stated fails in what it gives as the cause of a null payload. Without its top
  face the cube is not fully specified although each of the five input faces has become
  the payload of a face of the geometry; with a seventh face above it, which never
  becomes a face, the cube is built without an exception from the other six.
\<close>

theorem buildGeometry_failures_counterexample:
  "fst (buildGeometry hullKernel hullBuilder world (unbuilt openFaces)) =
     Some (GeometryException ''Brush is not fully specified'') \<and>
   m_faces (snd (buildGeometry hullKernel hullBuilder world (unbuilt openFaces))) = openFaces \<and>
   fst (buildGeometry hullKernel hullBuilder world (unbuilt redundantFaces)) = None \<and>
   m_faces (snd (buildGeometry hullKernel hullBuilder world (unbuilt redundantFaces))) =
     cubeFaces \<and>
   elemOf redundantFace redundantFaces \<and>
   elemOf redundantFace cubeFaces = False"
  by (simp add: faces_eval brush_build_eval hull_builder_eval hull_geometry_eval)

text \<open>
  C4 as stated fails: the cube with edges of length four, expanded by minus three, is
  clipped away; \<open>expand\<close> returns false and leaves the brush without faces and with an
  empty geometry. Moved out of the world by \<open>transform\<close>, the cube is clipped away as well;
  \<open>transform\<close> throws and leaves the brush in the same state.
\<close>

theorem expand_transform_failure_state_counterexample:
  "fst (expand hullKernel hullBuilder world (- 3) False cubeBrush) = Inr False \<and>
   snd (expand hullKernel hullBuilder world (- 3) False cubeBrush) \<noteq> cubeBrush \<and>
   m_faces (snd (expand hullKernel hullBuilder world (- 3) False cubeBrush)) = [] \<and>
   fst (Brush_transform hullKernel hullBuilder (hull_translation_matrix (100, 0, 0)) False world
          cubeBrush) = Some (GeometryException ''Brush is empty'') \<and>
   snd (Brush_transform hullKernel hullBuilder (hull_translation_matrix (100, 0, 0)) False world
          cubeBrush) \<noteq> cubeBrush \<and>
   m_faces cubeBrush \<noteq> []"
  by (simp add: cubeBrush_eval brush_ops_eval brush_build_eval hull_builder_eval
      hull_geometry_eval)

theorem expand_transform_failure_state_witness:
  "fst (expand hullKernel hullBuilder world (- 3) False cubeBrush) = Inr False \<and>
   fst (Brush_transform hullKernel hullBuilder (hull_translation_matrix (100, 0, 0)) False world
          cubeBrush) \<noteq> None \<and>
   m_geometry (snd (expand hullKernel hullBuilder world (- 3) False cubeBrush)) \<noteq> None \<and>
   canExpand hullKernel hullBuilder world (- 3) False cubeBrush = Inr False"
proof -
  have e: "fst (expand hullKernel hullBuilder world (- 3) False cubeBrush) = Inr False"
    by (simp add: cubeBrush_eval brush_ops_eval brush_build_eval hull_builder_eval
        hull_geometry_eval)
  have t: "fst (Brush_transform hullKernel hullBuilder (hull_translation_matrix (100, 0, 0))
                  False world cubeBrush) \<noteq> None"
    by (simp add: cubeBrush_eval brush_ops_eval brush_build_eval hull_builder_eval
        hull_geometry_eval)
  have c: "canExpand hullKernel hullBuilder world (- 3) False cubeBrush = Inr False"
    by (simp add: cubeBrush_eval brush_ops_eval brush_build_eval hull_builder_eval
        hull_geometry_eval)
  note s = expand_transform_failure_state [of hullKernel hullBuilder world "- 3" False cubeBrush
      "hull_translation_matrix (100, 0, 0)"]
  from s e have "m_geometry (snd (expand hullKernel hullBuilder world (- 3) False cubeBrush))
                 \<noteq> None"
    by auto
  with e t c show ?thesis by blast
qed



text \<open>
  The upper apex of the bipyramid, moved down by four units, ends inside the tetrahedron
  of the other vertices: the new geometry has no vertex at its new position, and the list
  that \<open>moveVertices\<close> returns is empty.
\<close>

theorem moveVertices_result_witness:
  "fst (moveVertices hullKernel hullBuilder world [(1, 1, 3)] (0, 0, - 4) True bipyramidBrush) =
     Inr [] \<and>
   (\<exists>g'. m_geometry
           (snd (moveVertices hullKernel hullBuilder world [(1, 1, 3)] (0, 0, - 4) True
                   bipyramidBrush)) = Some g' \<and>
         List.map_filter
           (\<lambda>position. findClosestVertex hullKernel g' (vadd position (0, 0, - 4))
                          (almost_zero hullKernel)) [(1, 1, 3)] = [])"
proof -
  have f: "fst (moveVertices hullKernel hullBuilder world [(1, 1, 3)] (0, 0, - 4) True
                  bipyramidBrush) = Inr []"
    by (simp add: bipyramidBrush_eval uvlock_eval brush_ops_eval brush_build_eval
        hull_builder_eval hull_geometry_eval del: not_None_eq)
  then have "moveVertices hullKernel hullBuilder world [(1, 1, 3)] (0, 0, - 4) True bipyramidBrush =
      (Inr [], snd (moveVertices hullKernel hullBuilder world [(1, 1, 3)] (0, 0, - 4) True
                      bipyramidBrush))"
    by (simp add: prod_eq_iff)
  from moveVertices_result [OF this] f show ?thesis by auto
qed

end
